theory Spec2Isabelle
  imports Main "HOL-Library.Word"
begin

section \<open>Strings\<close>

text \<open>
  Go strings are byte sequences; \<^typ>\<open>string\<close> is a list of 8-bit characters.
  The three functions of package \<^verbatim>\<open>strings\<close> that \<^verbatim>\<open>Fetch\<close> calls are written
  out: \<^verbatim>\<open>HasPrefix\<close> (used by \<^verbatim>\<open>Contains\<close>), \<^verbatim>\<open>Contains\<close> and \<^verbatim>\<open>TrimSuffix\<close>.
\<close>

fun HasPrefix :: "string \<Rightarrow> string \<Rightarrow> bool" where
  "HasPrefix s [] = True"
| "HasPrefix [] (c # cs) = False"
| "HasPrefix (d # ds) (c # cs) = (d = c \<and> HasPrefix ds cs)"

fun Contains :: "string \<Rightarrow> string \<Rightarrow> bool" where
  "Contains [] sub = (sub = [])"
| "Contains (c # cs) sub = (HasPrefix (c # cs) sub \<or> Contains cs sub)"

definition HasSuffix :: "string \<Rightarrow> string \<Rightarrow> bool" where
  "HasSuffix s suffix =
     (length suffix \<le> length s \<and> drop (length s - length suffix) s = suffix)"

definition TrimSuffix :: "string \<Rightarrow> string \<Rightarrow> string" where
  "TrimSuffix s suffix =
     (if HasSuffix s suffix then take (length s - length suffix) s else s)"

definition nl :: string where
  "nl = [CHR 0x0A]"

definition tab :: string where
  "tab = [CHR 0x09]"

definition dq :: string where
  "dq = [CHR 0x22]"

definition apostrophe :: string where
  "apostrophe = [CHR 0x27]"

section \<open>Data model\<close>

text \<open>
  A Go \<^verbatim>\<open>error\<close> is an interface value with a method \<^verbatim>\<open>Error()\<close>. Two different
  error values may render the same text, so an error that a collaborator returns
  carries an identity beside its text; \<^verbatim>\<open>fmt.Errorf\<close> builds an error from its text.
\<close>

datatype error = Errorf string | ExtError nat string

fun Error :: "error \<Rightarrow> string" where
  "Error (Errorf s) = s"
| "Error (ExtError i s) = s"

text \<open>
  \<^verbatim>\<open>time.Time\<close> is an instant, here the nanoseconds since the zero time
  (January 1, year 1, 00:00:00 UTC); a \<^verbatim>\<open>time.Duration\<close> added to it is a number of
  nanoseconds. The instants \<^verbatim>\<open>Fetch\<close> computes are far from the ends of the range
  of \<^verbatim>\<open>time.Time\<close>, so the instant is an unbounded integer.
\<close>

type_synonym Time = int

definition zeroTime :: Time where
  "zeroTime = 0"

definition Minute :: int where
  "Minute = 60 * 1000000000"

definition Add :: "Time \<Rightarrow> int \<Rightarrow> Time" where
  "Add t d = t + d"

definition Second :: "64 word" where
  "Second = 1000000000"

definition RFC1123 :: string where
  "RFC1123 = ''Mon, 02 Jan 2006 15:04:05 MST''"

definition RFC1123Z :: string where
  "RFC1123Z = ''Mon, 02 Jan 2006 15:04:05 -0700''"

text \<open>
  \<^verbatim>\<open>url.URL\<close> and \<^verbatim>\<open>http.Request\<close>, with the fields \<^verbatim>\<open>Fetch\<close> reads or writes.
  The field \<^verbatim>\<open>URL\<close> of a request is \<open>ReqURL\<close> here, since \<open>URL\<close> names the field of
  the job. A request of the model always has a URL: a prebuilt request whose
  pointer \<^verbatim>\<open>URL\<close> is nil makes \<^verbatim>\<open>Fetch\<close> panic at its first dereference (line 93 or
  115) and is not a value of this type.
\<close>

record URL =
  Scheme :: string
  Host :: string
  Path :: string
  RawQuery :: string

record Request =
  Method :: string
  ReqURL :: URL

text \<open>
  A response body: the bytes \<^verbatim>\<open>ioutil.ReadAll\<close> returns for it and the error it
  returns with them (nil at a clean end of the stream), and an identity under which
  the world records that it was read and closed.
\<close>

type_synonym byte = "8 word"

record ReadCloser =
  body_id :: nat
  data :: "byte list"
  read_err :: "error option"

record Response =
  StatusCode :: int
  Header :: "string \<rightharpoonup> string list"
  Body :: "ReadCloser option"

text \<open>\<^verbatim>\<open>Header.Get\<close>: the first value stored under the key, the empty string if none.\<close>

definition Header_Get :: "(string \<rightharpoonup> string list) \<Rightarrow> string \<Rightarrow> string" where
  "Header_Get h key =
     (case h key of None \<Rightarrow> [] | Some [] \<Rightarrow> [] | Some (v # vs) \<Rightarrow> v)"

datatype Context = Context nat

datatype Transport = ExtTransport nat | UrlfetchTransport Context bool

text \<open>
  \<^verbatim>\<open>http.Client\<close>: its transport (for \<^verbatim>\<open>urlfetch.Transport\<close> the context and the flag
  \<^verbatim>\<open>AllowInvalidServerCertificate\<close>), its timeout (\<open>ClientTimeout\<close>, an int64 count of
  nanoseconds) and its redirect callback (nil is \<open>None\<close>).
\<close>

record Client =
  Transport :: Transport
  ClientTimeout :: "64 word"
  CheckRedirect :: "(Request \<Rightarrow> Request list \<Rightarrow> error option) option"

text \<open>
  The struct \<^verbatim>\<open>Job\<close>, field by field. \<^verbatim>\<open>Timeout\<close> is a \<^verbatim>\<open>time.Duration\<close> (int64);
  the Go \<^verbatim>\<open>int\<close> fields are only compared and assigned, never computed with, and
  are integers here.
\<close>

record Job =
  URL :: string
  Req :: "Request option"
  Timeout :: "64 word"
  OnRedirect :: int
  LogLevel :: int
  ForceProtocol :: string
  ForceHttps :: bool
  AeReq :: "Request option"
  the_response_fields :: string
  Status :: int
  bts :: "byte list"
  BtsDump :: string
  Mod :: Time
  Msg :: string
  Err :: "error option"

text \<open>
  What \<^verbatim>\<open>Fetch\<close> calls outside this repository, as parameters: the URL normalizer
  and the client factory of \<^verbatim>\<open>github.com/zew/util\<close>, \<^verbatim>\<open>http.NewRequest\<close>,
  \<^verbatim>\<open>URL.String\<close>, the appengine context (\<open>Inl\<close> is a panic, with the text that
  \<^verbatim>\<open>%v\<close> prints for the recovered value; \<open>Inr None\<close> a nil context),
  \<^verbatim>\<open>urlfetch.Client\<close>, \<^verbatim>\<open>appengine.IsDevAppServer\<close>, \<^verbatim>\<open>time.Parse\<close> (layout, then
  value), the clock read by \<^verbatim>\<open>time.Now\<close>, and the network: \<open>Do env n c r\<close> is what
  \<^verbatim>\<open>client.Do\<close> returns for client \<open>c\<close> and request \<open>r\<close> when \<open>n\<close> dispatches were
  made before, the pair of the response and the error as Go returns them.
\<close>

record Env =
  UrlParseImproved :: "string \<Rightarrow> error + URL"
  NewRequest :: "string \<Rightarrow> string \<Rightarrow> error + Request"
  URL_String :: "URL \<Rightarrow> string"
  HttpClient :: Client
  NewContext :: "Request \<Rightarrow> string + Context option"
  urlfetch_Client :: "Context \<Rightarrow> Client"
  IsDevAppServer :: bool
  time_Parse :: "string \<Rightarrow> string \<Rightarrow> error + Time"
  Now :: Time
  Do :: "nat \<Rightarrow> Client \<Rightarrow> Request \<Rightarrow> Response option \<times> error option"

text \<open>
  The effects of \<^verbatim>\<open>Fetch\<close> outside the job: the requests dispatched with
  \<^verbatim>\<open>client.Do\<close>, in order, and the bodies read and closed.
\<close>

record World =
  calls :: "Request list"
  reads :: "nat list"
  closed :: "nat list"

section \<open>Fetch\<close>

text \<open>
  \<^verbatim>\<open>MsgNoRedirects\<close> is a package variable that the package never assigns: it is
  its initial value.
\<close>

definition MsgNoRedirects :: string where
  "MsgNoRedirects = ''redirect cancelled''"

definition addMsg :: "string \<Rightarrow> Job \<Rightarrow> Job" where
  "addMsg s f = f\<lparr>Msg := Msg f @ s\<rparr>"

text \<open>
  \<^verbatim>\<open>f.Req\<close> points to the request; an assignment to \<^verbatim>\<open>f.Req.URL.Scheme\<close> or
  \<^verbatim>\<open>f.Req.URL.Path\<close> changes the request the job holds. The functions below carry
  the request beside the job and store it back at every change.
\<close>

definition setScheme :: "string \<Rightarrow> Job \<times> Request \<Rightarrow> Job \<times> Request" where
  "setScheme s p =
     (let r = (snd p)\<lparr>ReqURL := (ReqURL (snd p))\<lparr>Scheme := s\<rparr>\<rparr>
      in ((fst p)\<lparr>Req := Some r\<rparr>, r))"

definition setPath :: "string \<Rightarrow> Job \<times> Request \<Rightarrow> Job \<times> Request" where
  "setPath s p =
     (let r = (snd p)\<lparr>ReqURL := (ReqURL (snd p))\<lparr>Path := s\<rparr>\<rparr>
      in ((fst p)\<lparr>Req := Some r\<rparr>, r))"

text \<open>Lines 87 to 97: the default timeout and the first log line.\<close>

definition defaults :: "Env \<Rightarrow> Job \<Rightarrow> Job" where
  "defaults env f0 =
     (let f = (if Timeout f0 = 0 then f0\<lparr>Timeout := 35\<rparr> else f0)
      in if LogLevel f > 0
         then (case Req f of
                 Some r \<Rightarrow> addMsg (''orig req url: '' @ URL_String env (ReqURL r) @ nl) f
               | None \<Rightarrow> addMsg (''orig str url: '' @ URL f @ nl) f)
         else f)"

text \<open>
  Lines 102 to 118: the prebuilt request, its empty scheme set to https, or a GET
  request built from the normalized URL. \<open>Inl\<close> is the return at line 106 or 112.
\<close>

definition buildRequest :: "Env \<Rightarrow> Job \<Rightarrow> Job + Job \<times> Request" where
  "buildRequest env f =
     (case Req f of
        None \<Rightarrow>
          (case UrlParseImproved env (URL f) of
             Inl e \<Rightarrow> Inl (f\<lparr>Err := Some e\<rparr>)
           | Inr u \<Rightarrow>
               (let f1 = f\<lparr>Err := None, URL := URL_String env u\<rparr>
                in case NewRequest env ''GET'' (URL f1) of
                     Inl e \<Rightarrow> Inl (f1\<lparr>Req := None, Err := Some e\<rparr>)
                   | Inr r \<Rightarrow> Inr (f1\<lparr>Req := Some r, Err := None\<rparr>, r)))
      | Some r \<Rightarrow>
          (if Scheme (ReqURL r) = [] then Inr (setScheme ''https'' (f, r))
           else Inr (f, r)))"

text \<open>Lines 120 to 122.\<close>

definition defaultPath :: "Job \<times> Request \<Rightarrow> Job \<times> Request" where
  "defaultPath p = (if Path (ReqURL (snd p)) = [] then setPath ''/'' p else p)"

text \<open>
  Lines 124 to 130. \<^verbatim>\<open>%q\<close> is reached with \<^verbatim>\<open>http\<close> or \<^verbatim>\<open>https\<close> only, which it
  prints between double quotes unchanged.
\<close>

definition forceProtocol :: "Job \<times> Request \<Rightarrow> Job \<times> Request" where
  "forceProtocol p =
     (if length (ForceProtocol (fst p)) > 1
      then (let fp = TrimSuffix (ForceProtocol (fst p)) '':'';
                p1 = ((fst p)\<lparr>ForceProtocol := fp\<rparr>, snd p)
            in if fp = ''http'' \<or> fp = ''https''
               then (let p2 = setScheme fp p1
                     in (addMsg (''Forcing protocol '' @ dq @ fp @ dq @ nl) (fst p2), snd p2))
               else p1)
      else p)"

text \<open>
  Lines 137 to 146: the appengine context. The deferred function runs whether or
  not \<^verbatim>\<open>appengine.NewContext\<close> panics, and logs the recovered value, nil if none.
\<close>

definition deriveContext :: "Env \<Rightarrow> Job \<Rightarrow> Context option" where
  "deriveContext env f =
     (case AeReq f of
        None \<Rightarrow> None
      | Some a \<Rightarrow> (case NewContext env a of Inl v \<Rightarrow> None | Inr c \<Rightarrow> c))"

definition contextMsg :: "Env \<Rightarrow> Job \<Rightarrow> string" where
  "contextMsg env f =
     (case AeReq f of
        None \<Rightarrow> []
      | Some a \<Rightarrow>
          (case NewContext env a of
             Inl v \<Rightarrow> ''appengine panic: '' @ v @ nl
           | Inr c \<Rightarrow> ''appengine panic: <nil>'' @ nl))"

text \<open>Lines 134 to 167: the client, and the downgrade on the dev server.\<close>

definition selectClient :: "Env \<Rightarrow> Job \<times> Request \<Rightarrow> (Job \<times> Request) \<times> Client" where
  "selectClient env p =
     (let ctx = deriveContext env (fst p);
          p1 = (addMsg (contextMsg env (fst p)) (fst p), snd p)
      in case ctx of
           None \<Rightarrow>
             ((addMsg (''standard  client'' @ nl) (fst p1), snd p1),
              (HttpClient env)\<lparr>ClientTimeout := Timeout (fst p1) * Second\<rparr>)
         | Some c \<Rightarrow>
             (let client = (urlfetch_Client env c)
                    \<lparr>Transport := UrlfetchTransport c False,
                     ClientTimeout := Timeout (fst p1) * Second\<rparr>;
                  p2 = (addMsg (''appengine client'' @ nl) (fst p1), snd p1)
              in (if IsDevAppServer env \<and> \<not> ForceHttps (fst p2)
                  then setScheme ''http'' p2 else p2,
                  client)))"

text \<open>Lines 174 to 185: the redirect callback.\<close>

definition redirectHandler :: "Request \<Rightarrow> Request list \<Rightarrow> error option" where
  "redirectHandler req via =
     (if length via = 1 \<and> Path (ReqURL req) = Path (ReqURL (via ! 0)) @ ''/''
      then None
      else Some (Errorf (MsgNoRedirects @ '' '' @
             (nl @ concat (map (\<lambda>v. Path (ReqURL v) @ nl) via) @ Path (ReqURL req) @ nl))))"

text \<open>Lines 169 to 187.\<close>

definition installRedirect :: "Env \<Rightarrow> (Job \<times> Request) \<times> Client \<Rightarrow> Job \<times> Request \<times> Client" where
  "installRedirect env pc =
     (let f = fst (fst pc); r = snd (fst pc);
          f1 = (if LogLevel f > 0
                then addMsg (''url standardized to '' @ URL_String env (ReqURL r) @ nl) f
                else f)
      in (f1, r, if OnRedirect f1 = 1
                 then (snd pc)\<lparr>CheckRedirect := Some redirectHandler\<rparr>
                 else snd pc))"

text \<open>
  Lines 87 to 187: everything before the first dispatch. \<open>Inl\<close> is a return before
  it; \<open>Inr\<close> gives the job, the request it holds and the client.
\<close>

definition prepare :: "Env \<Rightarrow> Job \<Rightarrow> Job + Job \<times> Request \<times> Client" where
  "prepare env f =
     (case buildRequest env (defaults env f) of
        Inl f1 \<Rightarrow> Inl f1
      | Inr p \<Rightarrow> Inr (installRedirect env (selectClient env (forceProtocol (defaultPath p)))))"

definition httpsCause :: "error \<Rightarrow> bool" where
  "httpsCause e =
     (Contains (Error e) ''SSL_CERTIFICATE_ERROR'' \<or>
      Contains (Error e) ''tls: oversized record received with length'')"

definition redirectCancelled :: "Job \<Rightarrow> error \<Rightarrow> bool" where
  "redirectCancelled f e = (OnRedirect f = 1 \<and> Contains (Error e) MsgNoRedirects)"

definition failingTransportMsg :: string where
  "failingTransportMsg =
     ''net/http: Client Transport of type init.failingTransport doesn'' @ apostrophe @
     ''t support CancelRequest; Timeout not supported''"

definition dispatch :: "Env \<Rightarrow> World \<Rightarrow> Client \<Rightarrow> Request \<Rightarrow> (Response option \<times> error option) \<times> World" where
  "dispatch env w c r = (Do env (length (calls w)) c r, w\<lparr>calls := calls w @ [r]\<rparr>)"

text \<open>
  Lines 191 to 250: the dispatch and the fallback to http. \<open>Inl\<close> is a return with
  the error stored; \<open>Inr\<close> goes on to line 255 with the response.
\<close>

definition roundTrip ::
  "Env \<Rightarrow> World \<Rightarrow> Job \<Rightarrow> Request \<Rightarrow> Client \<Rightarrow> Job \<times> World + Job \<times> World \<times> Response option" where
  "roundTrip env w f r c =
     (case dispatch env w c r of
        ((resp, None), w1) \<Rightarrow> Inr (f, w1, resp)
      | ((resp, Some err), w1) \<Rightarrow>
          if redirectCancelled f err
          then Inl ((addMsg (''First call failed due to redirect'' @ nl) f)
                      \<lparr>Mod := Add (Now env) (- 10 * Minute), Err := Some err\<rparr>, w1)
          else if httpsCause err \<and> Scheme (ReqURL r) = ''https'' \<and> Method r = ''POST''
          then (let f1 = addMsg (''Cannot do https requests. Possible reason: Dev server'' @ nl) f;
                    f2 = (if Contains (Error err) failingTransportMsg
                          then addMsg (''Did you forget to submit the AE Request?'' @ nl) f1
                          else f1)
                in Inl (f2\<lparr>Err := Some err\<rparr>, w1))
          else if httpsCause err \<and> Scheme (ReqURL r) = ''https'' \<and> Method r = ''GET''
          then (let p = setScheme ''http'' (f, r)
                in case dispatch env w1 c (snd p) of
                     ((resp2, Some err2nd), w2) \<Rightarrow>
                       if redirectCancelled (fst p) err2nd
                       then Inl ((addMsg (''GET fallback failed due to redirect'' @ nl) (fst p))
                                   \<lparr>Mod := Add (Now env) (- 10 * Minute), Err := Some err2nd\<rparr>, w2)
                       else Inl ((addMsg (''GET fallback to http failed with '' @
                                    Error err2nd @ nl) (fst p))
                                   \<lparr>Err := Some err\<rparr>, w2)
                   | ((resp2, None), w2) \<Rightarrow>
                       Inr (addMsg (tab @ ''successful fallback to http '' @
                              URL_String env (ReqURL (snd p)) @
                              tab @ ''after '' @ Error err @ nl) (fst p),
                            w2, resp2))
          else Inl (f\<lparr>Err := Some err\<rparr>, w1))"

text \<open>Lines 269 to 280: the time of the Last-Modified header.\<close>

definition lastModified :: "Env \<Rightarrow> string \<Rightarrow> Time" where
  "lastModified env lm =
     (if lm \<noteq> []
      then (case time_Parse env RFC1123 lm of
              Inr t \<Rightarrow> t
            | Inl e \<Rightarrow>
                (case time_Parse env RFC1123Z lm of
                   Inr t \<Rightarrow> t
                 | Inl e2 \<Rightarrow> zeroTime))
      else zeroTime)"

text \<open>
  Lines 255 to 283. The body is closed by the \<^verbatim>\<open>defer\<close> of line 266, which is
  registered only after the return of line 264.
\<close>

definition finish :: "Env \<Rightarrow> World \<Rightarrow> Job \<Rightarrow> Response option \<Rightarrow> Job \<times> World" where
  "finish env w f resp =
     (case resp of
        None \<Rightarrow> (f\<lparr>Err := Some (Errorf ''resp or resp.Body was nil'')\<rparr>, w)
      | Some rsp \<Rightarrow>
          (case Body rsp of
             None \<Rightarrow> (f\<lparr>Err := Some (Errorf ''resp or resp.Body was nil'')\<rparr>, w)
           | Some b \<Rightarrow>
               (let f1 = f\<lparr>Status := StatusCode rsp\<rparr>;
                    f2 = f1\<lparr>bts := data b, Err := read_err b\<rparr>;
                    w1 = w\<lparr>reads := reads w @ [body_id b]\<rparr>
                in case read_err b of
                     Some e \<Rightarrow> (f2, w1)
                   | None \<Rightarrow>
                       (f2\<lparr>Mod := lastModified env (Header_Get (Header rsp) ''Last-Modified'')\<rparr>,
                        w1\<lparr>closed := closed w1 @ [body_id b]\<rparr>))))"

definition Fetch :: "Env \<Rightarrow> World \<Rightarrow> Job \<Rightarrow> Job \<times> World" where
  "Fetch env w f =
     (case prepare env f of
        Inl f1 \<Rightarrow> (f1, w)
      | Inr (f1, r, c) \<Rightarrow>
          (case roundTrip env w f1 r c of
             Inl res \<Rightarrow> res
           | Inr (f2, w2, resp) \<Rightarrow> finish env w2 f2 resp))"

section \<open>Auxiliary definitions\<close>

text \<open>The request after the assignment of line 223.\<close>

definition toHttp :: "Request \<Rightarrow> Request" where
  "toHttp r = r\<lparr>ReqURL := (ReqURL r)\<lparr>Scheme := ''http''\<rparr>\<rparr>"

text \<open>
  \<open>frame f g\<close>: the job \<open>g\<close> has the fields of \<open>f\<close> that the steps before the
  dispatch never assign.
\<close>

definition frame :: "Job \<Rightarrow> Job \<Rightarrow> bool" where
  "frame f g =
     (OnRedirect g = OnRedirect f \<and> LogLevel g = LogLevel f \<and> ForceHttps g = ForceHttps f \<and>
      AeReq g = AeReq f \<and> Status g = Status f \<and> bts g = bts f \<and> Mod g = Mod f)"

section \<open>Concrete inputs\<close>

text \<open>
  A job for \<^verbatim>\<open>example.com/a\<close>, collaborators that answer for it, and a network that
  replays a list of results, one per dispatch.
\<close>

definition exURL :: URL where
  "exURL = \<lparr>Scheme = ''https'', Host = ''example.com'', Path = ''/a'', RawQuery = []\<rparr>"

definition exRequest :: "string \<Rightarrow> Request" where
  "exRequest m = \<lparr>Method = m, ReqURL = exURL\<rparr>"

definition certRequest :: Request where
  "certRequest = \<lparr>Method = ''GET'', ReqURL = exURL\<lparr>Path := ''/SSL_CERTIFICATE_ERROR''\<rparr>\<rparr>"

definition movedRequest :: Request where
  "movedRequest = \<lparr>Method = ''GET'', ReqURL = exURL\<lparr>Path := ''/b''\<rparr>\<rparr>"

definition slashRequest :: Request where
  "slashRequest = \<lparr>Method = ''GET'', ReqURL = exURL\<lparr>Path := ''/a/''\<rparr>\<rparr>"

definition parseError :: error where
  "parseError = ExtError 1 ''parse: invalid URL escape''"

definition requestError :: error where
  "requestError = ExtError 2 ''parse: invalid URL escape in request''"

definition timeError :: error where
  "timeError = ExtError 3 ''parsing time: cannot parse''"

definition tlsError :: error where
  "tlsError = ExtError 4 ''Get https://example.com/a: SSL_CERTIFICATE_ERROR''"

definition refusedError :: error where
  "refusedError = ExtError 5 ''Get http://example.com/a: connection refused''"

definition redirectError :: error where
  "redirectError =
     ExtError 6 (''Get /b: redirect cancelled '' @ nl @ ''/a'' @ nl @ ''/b'' @ nl)"

definition tlsRedirectError :: error where
  "tlsRedirectError =
     ExtError 7 (''Get /b: redirect cancelled '' @ nl @ ''/SSL_CERTIFICATE_ERROR'' @ nl @
                 ''/b'' @ nl)"

definition eofError :: error where
  "eofError = ExtError 8 ''unexpected EOF''"

definition exInstant :: Time where
  "exInstant = 63576479739 * 1000000000"

definition noHeader :: "string \<rightharpoonup> string list" where
  "noHeader = Map.empty"

definition lmHeader :: "string \<Rightarrow> (string \<rightharpoonup> string list)" where
  "lmHeader v = [''Last-Modified'' \<mapsto> [v]]"

definition exBody :: ReadCloser where
  "exBody = \<lparr>body_id = 7, data = [104, 105], read_err = None\<rparr>"

definition exResponse :: "(string \<rightharpoonup> string list) \<Rightarrow> Response" where
  "exResponse h = \<lparr>StatusCode = 200, Header = h, Body = Some exBody\<rparr>"

definition brokenResponse :: Response where
  "brokenResponse =
     \<lparr>StatusCode = 200, Header = noHeader,
      Body = Some \<lparr>body_id = 7, data = [104], read_err = Some eofError\<rparr>\<rparr>"

definition script ::
  "(Response option \<times> error option) list \<Rightarrow> nat \<Rightarrow> Client \<Rightarrow> Request \<Rightarrow>
     Response option \<times> error option" where
  "script xs n c r =
     (if n < length xs then xs ! n
      else (None, Some (ExtError 0 ''dial tcp: no route to host'')))"

definition exEnv :: "bool \<Rightarrow> (Response option \<times> error option) list \<Rightarrow> Env" where
  "exEnv dev xs =
     \<lparr>UrlParseImproved =
        (\<lambda>s. if s = ''example.com/a'' then Inr exURL
              else if s = ''example.com/%zz'' then Inr (exURL\<lparr>Path := ''/%zz''\<rparr>)
              else Inl parseError),
      NewRequest =
        (\<lambda>m s. if s = ''https://example.com/a'' then Inr (exRequest m) else Inl requestError),
      URL_String = (\<lambda>u. Scheme u @ ''://'' @ Host u @ Path u),
      HttpClient = \<lparr>Transport = ExtTransport 0, ClientTimeout = 0, CheckRedirect = None\<rparr>,
      NewContext = (\<lambda>r. Inr (Some (Context 0))),
      urlfetch_Client =
        (\<lambda>c. \<lparr>Transport = UrlfetchTransport c False, ClientTimeout = 0, CheckRedirect = None\<rparr>),
      IsDevAppServer = dev,
      time_Parse =
        (\<lambda>l s. if l = RFC1123 \<and> s = ''Sat, 29 Aug 2015 21:15:39 GMT'' then Inr exInstant
                else if l = RFC1123Z \<and> s = ''Sat, 29 Aug 2015 21:15:39 +0000''
                then Inr exInstant
                else Inl timeError),
      Now = 63900000000 * 1000000000,
      Do = script xs\<rparr>"

definition exJob :: Job where
  "exJob =
     \<lparr>URL = ''example.com/a'', Req = None, Timeout = 0, OnRedirect = 0, LogLevel = 0,
      ForceProtocol = [], ForceHttps = False, AeReq = None, the_response_fields = [],
      Status = 0, bts = [], BtsDump = [], Mod = 5, Msg = [], Err = None\<rparr>"

definition emptyWorld :: World where
  "emptyWorld = \<lparr>calls = [], reads = [], closed = []\<rparr>"

section \<open>Unfolding the model\<close>

lemmas model_defs = Fetch_def prepare_def defaults_def buildRequest_def defaultPath_def
  forceProtocol_def selectClient_def deriveContext_def contextMsg_def installRedirect_def
  roundTrip_def dispatch_def finish_def setScheme_def setPath_def addMsg_def
  redirectCancelled_def httpsCause_def MsgNoRedirects_def lastModified_def Header_Get_def
  TrimSuffix_def HasSuffix_def Add_def Minute_def zeroTime_def toHttp_def Let_def

lemmas ex_defs = exURL_def exRequest_def certRequest_def movedRequest_def slashRequest_def
  parseError_def requestError_def timeError_def tlsError_def refusedError_def
  redirectError_def tlsRedirectError_def eofError_def exInstant_def noHeader_def
  lmHeader_def exBody_def exResponse_def brokenResponse_def script_def exEnv_def
  exJob_def emptyWorld_def nl_def RFC1123_def RFC1123Z_def

section \<open>Strings\<close>

lemma HasPrefix_append: "HasPrefix (p @ s) p"
  by (induction p) auto

lemma HasPrefix_iff: "HasPrefix s p \<longleftrightarrow> (\<exists>b. s = p @ b)"
  by (induction s p rule: HasPrefix.induct) auto

lemma Contains_prefix: "HasPrefix s sub \<Longrightarrow> Contains s sub"
  by (cases s) (auto elim: HasPrefix.elims)

lemma Contains_append: "Contains (a @ sub @ b) sub"
  by (induction a) (auto simp: Contains_prefix HasPrefix_append)

text \<open>\<open>Contains\<close> is the substring relation.\<close>

lemma Contains_iff: "Contains s sub \<longleftrightarrow> (\<exists>a b. s = a @ sub @ b)"
proof (induction s)
  case Nil
  then show ?case by auto
next
  case (Cons c cs)
  show ?case
  proof
    assume "Contains (c # cs) sub"
    then consider "HasPrefix (c # cs) sub" | "Contains cs sub" by auto
    then show "\<exists>a b. c # cs = a @ sub @ b"
    proof cases
      case 1
      then obtain b where "c # cs = sub @ b" by (auto simp: HasPrefix_iff)
      then have "c # cs = [] @ sub @ b" by simp
      then show ?thesis by blast
    next
      case 2
      then obtain a b where "cs = a @ sub @ b" using Cons.IH by blast
      then have "c # cs = (c # a) @ sub @ b" by simp
      then show ?thesis by blast
    qed
  next
    assume "\<exists>a b. c # cs = a @ sub @ b"
    then obtain a b where "c # cs = a @ sub @ b" by blast
    then show "Contains (c # cs) sub" using Contains_append by metis
  qed
qed

lemma TrimSuffix_append: "TrimSuffix (s @ t) t = s"
  by (simp add: TrimSuffix_def HasSuffix_def)

section \<open>The steps before the dispatch\<close>

lemma frame_trans: "frame f g \<Longrightarrow> frame g h \<Longrightarrow> frame f h"
  by (simp add: frame_def)

lemma frame_defaults: "frame f (defaults env f)"
  by (simp add: frame_def defaults_def addMsg_def Let_def split: option.splits)

lemma Req_defaults: "Req (defaults env f) = Req f"
  by (simp add: defaults_def addMsg_def Let_def split: option.splits)

lemma URL_defaults: "URL (defaults env f) = URL f"
  by (simp add: defaults_def addMsg_def Let_def split: option.splits)

lemma ForceProtocol_defaults: "ForceProtocol (defaults env f) = ForceProtocol f"
  by (simp add: defaults_def addMsg_def Let_def split: option.splits)

lemma buildRequest_Inr:
  "buildRequest env f = Inr p \<Longrightarrow>
     frame f (fst p) \<and> Req (fst p) = Some (snd p) \<and> ForceProtocol (fst p) = ForceProtocol f"
  by (auto simp: buildRequest_def frame_def setScheme_def Let_def
           split: option.splits sum.splits if_splits)

lemma buildRequest_Inl:
  "buildRequest env f = Inl g \<Longrightarrow> Req f = None \<and> frame f g \<and> Err g \<noteq> None"
  by (auto simp: buildRequest_def frame_def setScheme_def Let_def
           split: option.splits sum.splits if_splits)

lemma defaultPath_props:
  "Req (fst p) = Some (snd p) \<Longrightarrow>
     frame (fst p) (fst (defaultPath p)) \<and>
     Req (fst (defaultPath p)) = Some (snd (defaultPath p)) \<and>
     ForceProtocol (fst (defaultPath p)) = ForceProtocol (fst p)"
  by (simp add: defaultPath_def frame_def setPath_def Let_def)

lemma forceProtocol_props:
  "Req (fst p) = Some (snd p) \<Longrightarrow>
     frame (fst p) (fst (forceProtocol p)) \<and>
     Req (fst (forceProtocol p)) = Some (snd (forceProtocol p))"
  by (simp add: forceProtocol_def frame_def setScheme_def addMsg_def Let_def)

lemma forceProtocol_forced:
  assumes "ForceProtocol (fst p) = fp @ '':''" and "fp = ''https'' \<or> fp = ''http''"
  shows "ForceProtocol (fst (forceProtocol p)) = fp \<and>
         Scheme (ReqURL (snd (forceProtocol p))) = fp"
proof -
  have "TrimSuffix (ForceProtocol (fst p)) '':'' = fp"
    using assms(1) TrimSuffix_append[of fp "'':''"] by simp
  moreover have "length (ForceProtocol (fst p)) > 1" using assms by auto
  ultimately show ?thesis using assms(2)
    by (auto simp: forceProtocol_def setScheme_def addMsg_def Let_def)
qed

lemma deriveContext_frame: "frame f g \<Longrightarrow> deriveContext env g = deriveContext env f"
  by (simp add: deriveContext_def frame_def)

lemma selectClient_props:
  "Req (fst p) = Some (snd p) \<Longrightarrow>
     frame (fst p) (fst (fst (selectClient env p))) \<and>
     Req (fst (fst (selectClient env p))) = Some (snd (fst (selectClient env p))) \<and>
     ForceProtocol (fst (fst (selectClient env p))) = ForceProtocol (fst p)"
  by (simp add: selectClient_def frame_def setScheme_def addMsg_def Let_def split: option.splits)

lemma selectClient_scheme:
  "Scheme (ReqURL (snd (fst (selectClient env p)))) =
     (if deriveContext env (fst p) \<noteq> None \<and> IsDevAppServer env \<and> \<not> ForceHttps (fst p)
      then ''http'' else Scheme (ReqURL (snd p)))"
  by (auto simp: selectClient_def setScheme_def addMsg_def Let_def split: option.splits)

lemma installRedirect_props:
  "Req (fst (fst pc)) = Some (snd (fst pc)) \<Longrightarrow> installRedirect env pc = (f1, r, c) \<Longrightarrow>
     frame (fst (fst pc)) f1 \<and> Req f1 = Some r \<and> r = snd (fst pc) \<and>
     ForceProtocol f1 = ForceProtocol (fst (fst pc)) \<and>
     c = (if OnRedirect f1 = 1 then (snd pc)\<lparr>CheckRedirect := Some redirectHandler\<rparr> else snd pc)"
  by (auto simp: installRedirect_def frame_def addMsg_def Let_def split: if_splits)

text \<open>
  A job that reaches the dispatch holds the request that is dispatched, and keeps
  the fields of \<open>frame\<close>.
\<close>

lemma prepare_Inr:
  assumes "prepare env f = Inr (f1, r, c)"
  shows "frame f f1 \<and> Req f1 = Some r"
proof -
  from assms obtain p where b: "buildRequest env (defaults env f) = Inr p"
    and i: "installRedirect env (selectClient env (forceProtocol (defaultPath p))) = (f1, r, c)"
    by (auto simp: prepare_def split: sum.splits)
  let ?p1 = "defaultPath p" and ?p2 = "forceProtocol (defaultPath p)"
  let ?p3 = "fst (selectClient env (forceProtocol (defaultPath p)))"
  from buildRequest_Inr[OF b]
  have 1: "frame (defaults env f) (fst p)" "Req (fst p) = Some (snd p)"
    by simp_all
  from defaultPath_props[OF 1(2)]
  have 2: "frame (fst p) (fst ?p1)" "Req (fst ?p1) = Some (snd ?p1)"
    by simp_all
  from forceProtocol_props[OF 2(2)]
  have 3: "frame (fst ?p1) (fst ?p2)" "Req (fst ?p2) = Some (snd ?p2)"
    by simp_all
  from selectClient_props[OF 3(2), of env]
  have 4: "frame (fst ?p2) (fst ?p3)" "Req (fst ?p3) = Some (snd ?p3)"
    by simp_all
  from installRedirect_props[OF 4(2) i]
  have 5: "frame (fst ?p3) f1" "Req f1 = Some r"
    by simp_all
  have "frame f f1"
    using frame_defaults[of f env] 1(1) 2(1) 3(1) 4(1) 5(1) by (blast intro: frame_trans)
  with 5(2) show ?thesis by simp
qed

text \<open>A return before the dispatch stores an error.\<close>

lemma prepare_Inl:
  assumes "prepare env f = Inl g"
  shows "frame f g \<and> Err g \<noteq> None"
proof -
  from assms have b: "buildRequest env (defaults env f) = Inl g"
    by (auto simp: prepare_def split: sum.splits)
  from buildRequest_Inl[OF b] have "frame (defaults env f) g" "Err g \<noteq> None"
    by simp_all
  then show ?thesis using frame_defaults[of f env] by (blast intro: frame_trans)
qed

lemma prepare_client:
  assumes "prepare env f = Inr (f1, r, c)" and "OnRedirect f = 1"
  shows "CheckRedirect c = Some redirectHandler"
proof -
  from assms(1) obtain p where
    i: "installRedirect env (selectClient env (forceProtocol (defaultPath p))) = (f1, r, c)"
    by (auto simp: prepare_def split: sum.splits)
  from prepare_Inr[OF assms(1)] assms(2) have "OnRedirect f1 = 1" by (simp add: frame_def)
  with i show ?thesis by (auto simp: installRedirect_def Let_def split: if_splits)
qed

lemma redirectCancelled_frame: "frame f g \<Longrightarrow> redirectCancelled g e = redirectCancelled f e"
  by (simp add: frame_def redirectCancelled_def)

section \<open>The dispatch, branch by branch\<close>

lemma roundTrip_ok:
  "Do env (length (calls w)) c r = (resp, None) \<Longrightarrow>
     roundTrip env w f r c = Inr (f, w\<lparr>calls := calls w @ [r]\<rparr>, resp)"
  by (simp add: roundTrip_def dispatch_def)

lemma roundTrip_redirect:
  "Do env (length (calls w)) c r = (resp, Some err) \<Longrightarrow> redirectCancelled f err \<Longrightarrow>
     roundTrip env w f r c =
       Inl ((addMsg (''First call failed due to redirect'' @ nl) f)
              \<lparr>Mod := Add (Now env) (- 10 * Minute), Err := Some err\<rparr>,
            w\<lparr>calls := calls w @ [r]\<rparr>)"
  by (simp add: roundTrip_def dispatch_def)

lemma roundTrip_post:
  "Do env (length (calls w)) c r = (resp, Some err) \<Longrightarrow> httpsCause err \<Longrightarrow>
   Scheme (ReqURL r) = ''https'' \<Longrightarrow> Method r = ''POST'' \<Longrightarrow>
     \<exists>g. roundTrip env w f r c = Inl (g, w\<lparr>calls := calls w @ [r]\<rparr>) \<and> Err g = Some err \<and>
         Req g = Req f \<and> Status g = Status f \<and> bts g = bts f"
  by (simp add: roundTrip_def dispatch_def addMsg_def Let_def)

lemma roundTrip_other:
  "Do env (length (calls w)) c r = (resp, Some err) \<Longrightarrow> \<not> redirectCancelled f err \<Longrightarrow>
   \<not> (httpsCause err \<and> Scheme (ReqURL r) = ''https'' \<and>
      (Method r = ''POST'' \<or> Method r = ''GET'')) \<Longrightarrow>
     roundTrip env w f r c = Inl (f\<lparr>Err := Some err\<rparr>, w\<lparr>calls := calls w @ [r]\<rparr>)"
  by (auto simp: roundTrip_def dispatch_def)

lemma roundTrip_fallback_ok:
  "Do env (length (calls w)) c r = (resp, Some err) \<Longrightarrow> \<not> redirectCancelled f err \<Longrightarrow>
   httpsCause err \<Longrightarrow> Scheme (ReqURL r) = ''https'' \<Longrightarrow> Method r = ''GET'' \<Longrightarrow>
   Do env (Suc (length (calls w))) c (toHttp r) = (resp2, None) \<Longrightarrow>
     \<exists>g. roundTrip env w f r c = Inr (g, w\<lparr>calls := calls w @ [r, toHttp r]\<rparr>, resp2) \<and>
         Req g = Some (toHttp r) \<and> Err g = Err f \<and> Status g = Status f \<and> bts g = bts f"
  by (simp add: roundTrip_def dispatch_def addMsg_def setScheme_def toHttp_def Let_def)

lemma roundTrip_fallback_redirect:
  "Do env (length (calls w)) c r = (resp, Some err) \<Longrightarrow> \<not> redirectCancelled f err \<Longrightarrow>
   httpsCause err \<Longrightarrow> Scheme (ReqURL r) = ''https'' \<Longrightarrow> Method r = ''GET'' \<Longrightarrow>
   Do env (Suc (length (calls w))) c (toHttp r) = (resp2, Some err2) \<Longrightarrow>
   redirectCancelled f err2 \<Longrightarrow>
     \<exists>g. roundTrip env w f r c = Inl (g, w\<lparr>calls := calls w @ [r, toHttp r]\<rparr>) \<and>
         Req g = Some (toHttp r) \<and> Err g = Some err2 \<and>
         Mod g = Add (Now env) (- 10 * Minute) \<and> Status g = Status f \<and> bts g = bts f"
  by (auto simp: roundTrip_def dispatch_def addMsg_def setScheme_def toHttp_def Let_def
        redirectCancelled_def)

lemma roundTrip_fallback_failed:
  "Do env (length (calls w)) c r = (resp, Some err) \<Longrightarrow> \<not> redirectCancelled f err \<Longrightarrow>
   httpsCause err \<Longrightarrow> Scheme (ReqURL r) = ''https'' \<Longrightarrow> Method r = ''GET'' \<Longrightarrow>
   Do env (Suc (length (calls w))) c (toHttp r) = (resp2, Some err2) \<Longrightarrow>
   \<not> redirectCancelled f err2 \<Longrightarrow>
     \<exists>g. roundTrip env w f r c = Inl (g, w\<lparr>calls := calls w @ [r, toHttp r]\<rparr>) \<and>
         Req g = Some (toHttp r) \<and> Err g = Some err \<and> Mod g = Mod f \<and>
         Status g = Status f \<and> bts g = bts f"
  by (auto simp: roundTrip_def dispatch_def addMsg_def setScheme_def toHttp_def Let_def
        redirectCancelled_def)

lemma roundTrip_Inl:
  "roundTrip env w f r c = Inl (g, w') \<Longrightarrow>
     Err g \<noteq> None \<and> Status g = Status f \<and> bts g = bts f"
  by (auto simp: roundTrip_def dispatch_def addMsg_def setScheme_def Let_def
           split: prod.splits option.splits if_splits)

lemma roundTrip_Inr:
  "roundTrip env w f r c = Inr (g, w', resp) \<Longrightarrow>
     Status g = Status f \<and> bts g = bts f \<and> (\<exists>n r'. Do env n c r' = (resp, None))"
  by (auto simp: roundTrip_def dispatch_def addMsg_def setScheme_def Let_def
           split: prod.splits option.splits if_splits)

text \<open>The dispatch makes one call or two, never more.\<close>

lemma roundTrip_calls:
  "roundTrip env w f r c = Inl (g, w') \<or> roundTrip env w f r c = Inr (g, w', resp) \<Longrightarrow>
     calls w' = calls w @ [r] \<or> calls w' = calls w @ [r, toHttp r]"
  by (auto simp: roundTrip_def dispatch_def addMsg_def setScheme_def toHttp_def Let_def
           split: prod.splits option.splits if_splits)

section \<open>The response\<close>

lemma finish_nil:
  "resp = None \<or> (\<exists>rsp. resp = Some rsp \<and> Body rsp = None) \<Longrightarrow>
     finish env w f resp = (f\<lparr>Err := Some (Errorf ''resp or resp.Body was nil'')\<rparr>, w)"
  by (auto simp: finish_def)

lemma finish_read_failed:
  "Body rsp = Some b \<Longrightarrow> read_err b = Some e \<Longrightarrow>
     finish env w f (Some rsp) =
       (f\<lparr>Status := StatusCode rsp, bts := data b, Err := Some e\<rparr>,
        w\<lparr>reads := reads w @ [body_id b]\<rparr>)"
  by (simp add: finish_def)

lemma finish_read_ok:
  "Body rsp = Some b \<Longrightarrow> read_err b = None \<Longrightarrow>
     finish env w f (Some rsp) =
       (f\<lparr>Status := StatusCode rsp, bts := data b, Err := None,
          Mod := lastModified env (Header_Get (Header rsp) ''Last-Modified'')\<rparr>,
        w\<lparr>reads := reads w @ [body_id b], closed := closed w @ [body_id b]\<rparr>)"
  by (simp add: finish_def)

lemma finish_frame:
  "Req (fst (finish env w f resp)) = Req f \<and> calls (snd (finish env w f resp)) = calls w"
  by (simp add: finish_def Let_def split: option.splits)

lemma Fetch_Inr:
  "prepare env f = Inr (f1, r, c) \<Longrightarrow>
     Fetch env w f = (case roundTrip env w f1 r c of
                        Inl res \<Rightarrow> res
                      | Inr (f2, w2, resp) \<Rightarrow> finish env w2 f2 resp)"
  by (simp add: Fetch_def)

lemma calls_emptyWorld: "calls emptyWorld = []"
  by (simp add: emptyWorld_def)

section \<open>C1: the fallback to http\<close>

text \<open>
  Claim C1, as stated: whenever the first dispatch of an https request fails with
  an error that carries one of the two TLS signatures, a GET request is
  downgraded to http and dispatched once more. The code looks for the redirect
  marker first (lines 195 to 202): with \<^verbatim>\<open>OnRedirect == 1\<close>, an error that carries
  the marker and a TLS signature ends \<^verbatim>\<open>Fetch\<close> after one dispatch, the scheme
  still https. The redirect callback writes the visited paths into its error, so
  a path \<^verbatim>\<open>/SSL_CERTIFICATE_ERROR\<close> gives such an error.
\<close>

theorem C1_counterexample:
  "redirectHandler movedRequest [certRequest] =
     Some (Errorf (''redirect cancelled '' @ nl @ ''/SSL_CERTIFICATE_ERROR'' @ nl @
                   ''/b'' @ nl)) \<and>
   httpsCause tlsRedirectError \<and>
   Method certRequest = ''GET'' \<and> Scheme (ReqURL certRequest) = ''https'' \<and>
   Err (fst (Fetch (exEnv False [(None, Some tlsRedirectError)]) emptyWorld
              (exJob\<lparr>Req := Some certRequest, OnRedirect := 1\<rparr>))) = Some tlsRedirectError \<and>
   calls (snd (Fetch (exEnv False [(None, Some tlsRedirectError)]) emptyWorld
              (exJob\<lparr>Req := Some certRequest, OnRedirect := 1\<rparr>))) = [certRequest] \<and>
   Req (fst (Fetch (exEnv False [(None, Some tlsRedirectError)]) emptyWorld
              (exJob\<lparr>Req := Some certRequest, OnRedirect := 1\<rparr>))) = Some certRequest"
  by (simp add: model_defs ex_defs redirectHandler_def)

text \<open>
  Claim C1, amended: when the first dispatch of an https request fails with an
  error that carries a TLS signature, then a GET request, unless the error is a
  redirect rejection (\<^verbatim>\<open>OnRedirect == 1\<close> and the marker in the error), is
  dispatched exactly once more, with the scheme http, which the job's request
  keeps; a POST request is dispatched once only, and the job stores the error of
  that dispatch.
\<close>

theorem C1_fallback_retry:
  assumes "prepare env f = Inr (f1, r, c)"
      and "Do env (length (calls w)) c r = (resp, Some err)"
      and "httpsCause err"
      and "Scheme (ReqURL r) = ''https''"
  shows "(Method r = ''GET'' \<and> \<not> redirectCancelled f err \<longrightarrow>
            calls (snd (Fetch env w f)) = calls w @ [r, toHttp r] \<and>
            Req (fst (Fetch env w f)) = Some (toHttp r)) \<and>
         (Method r = ''POST'' \<longrightarrow>
            calls (snd (Fetch env w f)) = calls w @ [r] \<and>
            Err (fst (Fetch env w f)) = Some err)"
proof (intro conjI impI)
  note F = Fetch_Inr[OF assms(1), of w]
  from prepare_Inr[OF assms(1)] have fr: "frame f f1" by simp
  {
    assume g: "Method r = ''GET'' \<and> \<not> redirectCancelled f err"
    then have nr: "\<not> redirectCancelled f1 err" using redirectCancelled_frame[OF fr] by simp
    obtain resp2 e2 where d2: "Do env (Suc (length (calls w))) c (toHttp r) = (resp2, e2)"
      by (cases "Do env (Suc (length (calls w))) c (toHttp r)") auto
    have "calls (snd (Fetch env w f)) = calls w @ [r, toHttp r] \<and>
          Req (fst (Fetch env w f)) = Some (toHttp r)"
    proof (cases e2)
      case None
      with roundTrip_fallback_ok[OF assms(2) nr assms(3,4) _ d2[unfolded None]] g
      show ?thesis using F by (auto simp: finish_frame)
    next
      case (Some err2)
      show ?thesis
      proof (cases "redirectCancelled f1 err2")
        case True
        with roundTrip_fallback_redirect[OF assms(2) nr assms(3,4) _ d2[unfolded Some]] g
        show ?thesis using F by auto
      next
        case False
        with roundTrip_fallback_failed[OF assms(2) nr assms(3,4) _ d2[unfolded Some]] g
        show ?thesis using F by auto
      qed
    qed
  }
  then show "Method r = ''GET'' \<and> \<not> redirectCancelled f err \<Longrightarrow>
               calls (snd (Fetch env w f)) = calls w @ [r, toHttp r]"
    and "Method r = ''GET'' \<and> \<not> redirectCancelled f err \<Longrightarrow>
               Req (fst (Fetch env w f)) = Some (toHttp r)"
    by simp_all
  {
    assume p: "Method r = ''POST''"
    have "calls (snd (Fetch env w f)) = calls w @ [r] \<and> Err (fst (Fetch env w f)) = Some err"
    proof (cases "redirectCancelled f1 err")
      case True
      from roundTrip_redirect[OF assms(2) True] show ?thesis using F by simp
    next
      case False
      from roundTrip_post[OF assms(2,3,4) p, where f = f1] show ?thesis using F by auto
    qed
  }
  then show "Method r = ''POST'' \<Longrightarrow> calls (snd (Fetch env w f)) = calls w @ [r]"
    and "Method r = ''POST'' \<Longrightarrow> Err (fst (Fetch env w f)) = Some err"
    by simp_all
qed

text \<open>
  C1 at two inputs: a GET whose retry is refused, dispatched twice; a prebuilt POST,
  dispatched once.
\<close>

theorem C1_fallback_retry_witness:
  "calls (snd (Fetch (exEnv False [(None, Some tlsError), (None, Some refusedError)])
                 emptyWorld exJob)) = [exRequest ''GET'', toHttp (exRequest ''GET'')] \<and>
   Req (fst (Fetch (exEnv False [(None, Some tlsError), (None, Some refusedError)])
                 emptyWorld exJob)) = Some (toHttp (exRequest ''GET'')) \<and>
   calls (snd (Fetch (exEnv False [(None, Some tlsError)]) emptyWorld
                 (exJob\<lparr>Req := Some (exRequest ''POST'')\<rparr>))) = [exRequest ''POST''] \<and>
   Err (fst (Fetch (exEnv False [(None, Some tlsError)]) emptyWorld
                 (exJob\<lparr>Req := Some (exRequest ''POST'')\<rparr>))) = Some tlsError"
proof -
  let ?E = "exEnv False [(None, Some tlsError), (None, Some refusedError)]"
  let ?E2 = "exEnv False [(None, Some tlsError)]"
  let ?J2 = "exJob\<lparr>Req := Some (exRequest ''POST'')\<rparr>"
  obtain f1 c where p: "prepare ?E exJob = Inr (f1, exRequest ''GET'', c)"
    by (simp add: model_defs ex_defs)
  obtain g1 d where q: "prepare ?E2 ?J2 = Inr (g1, exRequest ''POST'', d)"
    by (simp add: model_defs ex_defs)
  have d1: "Do ?E (length (calls emptyWorld)) c (exRequest ''GET'') = (None, Some tlsError)"
    by (simp add: ex_defs)
  have d2: "Do ?E2 (length (calls emptyWorld)) d (exRequest ''POST'') = (None, Some tlsError)"
    by (simp add: ex_defs)
  have h: "httpsCause tlsError" by (simp add: httpsCause_def ex_defs)
  have s: "Scheme (ReqURL (exRequest ''GET'')) = ''https''"
    "Scheme (ReqURL (exRequest ''POST'')) = ''https''" by (simp_all add: ex_defs)
  have m: "Method (exRequest ''GET'') = ''GET''" "Method (exRequest ''POST'') = ''POST''"
    by (simp_all add: ex_defs)
  have n: "\<not> redirectCancelled exJob tlsError" by (simp add: redirectCancelled_def ex_defs)
  from C1_fallback_retry[OF p d1 h s(1)] C1_fallback_retry[OF q d2 h s(2)] m n
  show ?thesis by (simp add: calls_emptyWorld)
qed

section \<open>C2: the redirect callback\<close>

text \<open>
  Claim C2: with \<^verbatim>\<open>OnRedirect == 1\<close> the client that dispatches carries the
  callback of lines 174 to 185. The callback returns nil for exactly one shape, a
  single earlier request whose path plus \<^verbatim>\<open>/\<close> is the path of the new one; for every
  other shape it returns an error whose text is the marker \<^verbatim>\<open>redirect cancelled\<close>,
  a space, a newline, and the paths of all earlier requests and of the new one,
  each followed by a newline.
\<close>

theorem C2_redirect_policy:
  "(prepare env f = Inr (f1, r, c) \<and> OnRedirect f = 1 \<longrightarrow>
      CheckRedirect c = Some redirectHandler) \<and>
   (redirectHandler req via = None \<longleftrightarrow>
      (\<exists>v. via = [v] \<and> Path (ReqURL req) = Path (ReqURL v) @ ''/'')) \<and>
   (redirectHandler req via \<noteq> None \<longrightarrow>
      redirectHandler req via =
        Some (Errorf (''redirect cancelled '' @ nl @
                concat (map (\<lambda>v. Path (ReqURL v) @ nl) (via @ [req])))) \<and>
      Contains (Error (the (redirectHandler req via))) ''redirect cancelled'')"
proof (intro conjI)
  show "prepare env f = Inr (f1, r, c) \<and> OnRedirect f = 1 \<longrightarrow>
          CheckRedirect c = Some redirectHandler"
    using prepare_client by blast
  show "redirectHandler req via = None \<longleftrightarrow>
      (\<exists>v. via = [v] \<and> Path (ReqURL req) = Path (ReqURL v) @ ''/'')"
  proof (cases via)
    case Nil
    then show ?thesis by (simp add: redirectHandler_def)
  next
    case (Cons v vs)
    then show ?thesis by (cases vs) (auto simp: redirectHandler_def)
  qed
  show "redirectHandler req via \<noteq> None \<longrightarrow>
      redirectHandler req via =
        Some (Errorf (''redirect cancelled '' @ nl @
                concat (map (\<lambda>v. Path (ReqURL v) @ nl) (via @ [req])))) \<and>
      Contains (Error (the (redirectHandler req via))) ''redirect cancelled''"
  proof
    assume "redirectHandler req via \<noteq> None"
    then have e: "redirectHandler req via =
        Some (Errorf (''redirect cancelled '' @ nl @
                concat (map (\<lambda>v. Path (ReqURL v) @ nl) (via @ [req]))))"
      by (simp add: redirectHandler_def MsgNoRedirects_def split: if_splits)
    have "Contains ([] @ ''redirect cancelled'' @ ('' '' @ nl @
                concat (map (\<lambda>v. Path (ReqURL v) @ nl) (via @ [req])))) ''redirect cancelled''"
      by (rule Contains_append)
    with e show "redirectHandler req via =
        Some (Errorf (''redirect cancelled '' @ nl @
                concat (map (\<lambda>v. Path (ReqURL v) @ nl) (via @ [req])))) \<and>
      Contains (Error (the (redirectHandler req via))) ''redirect cancelled''"
      by simp
  qed
qed

text \<open>
  C2 for the job with \<^verbatim>\<open>OnRedirect == 1\<close>: the redirect from \<^verbatim>\<open>/a\<close> to \<^verbatim>\<open>/a/\<close> is
  accepted, the one from \<^verbatim>\<open>/a\<close> to \<^verbatim>\<open>/b\<close> rejected.
\<close>

theorem C2_redirect_policy_witness:
  "(case prepare (exEnv False []) (exJob\<lparr>OnRedirect := 1\<rparr>) of
      Inl g \<Rightarrow> False
    | Inr (f1, r, c) \<Rightarrow> CheckRedirect c = Some redirectHandler) \<and>
   redirectHandler slashRequest [exRequest ''GET''] = None \<and>
   redirectHandler movedRequest [exRequest ''GET''] =
     Some (Errorf (''redirect cancelled '' @ nl @ ''/a'' @ nl @ ''/b'' @ nl)) \<and>
   Contains (''redirect cancelled '' @ nl @ ''/a'' @ nl @ ''/b'' @ nl) ''redirect cancelled''"
proof -
  let ?E = "exEnv False []" and ?J = "exJob\<lparr>OnRedirect := 1\<rparr>"
  obtain f1 r c where p: "prepare ?E ?J = Inr (f1, r, c)"
    by (simp add: model_defs ex_defs)
  have o: "OnRedirect ?J = 1" by (simp add: ex_defs)
  have a: "\<exists>v. [exRequest ''GET''] = [v] \<and>
             Path (ReqURL slashRequest) = Path (ReqURL v) @ ''/''"
    by (simp add: ex_defs)
  have b: "\<not> (\<exists>v. [exRequest ''GET''] = [v] \<and>
             Path (ReqURL movedRequest) = Path (ReqURL v) @ ''/'')"
    by (simp add: ex_defs)
  from C2_redirect_policy[of ?E ?J f1 r c slashRequest "[exRequest ''GET'']"] p o a
  have 1: "CheckRedirect c = Some redirectHandler"
    and 2: "redirectHandler slashRequest [exRequest ''GET''] = None" by blast+
  from C2_redirect_policy[of ?E ?J f1 r c movedRequest "[exRequest ''GET'']"] b
  have 3: "redirectHandler movedRequest [exRequest ''GET''] =
        Some (Errorf (''redirect cancelled '' @ nl @
                concat (map (\<lambda>v. Path (ReqURL v) @ nl) ([exRequest ''GET''] @ [movedRequest]))))"
    and 4: "Contains (Error (the (redirectHandler movedRequest [exRequest ''GET''])))
              ''redirect cancelled''"
    by blast+
  from 3 have 5: "redirectHandler movedRequest [exRequest ''GET''] =
     Some (Errorf (''redirect cancelled '' @ nl @ ''/a'' @ nl @ ''/b'' @ nl))"
    by (simp add: ex_defs)
  from 4 5 have 6:
    "Contains (''redirect cancelled '' @ nl @ ''/a'' @ nl @ ''/b'' @ nl) ''redirect cancelled''"
    by simp
  from p 1 2 5 6 show ?thesis by simp
qed

section \<open>C3: a redirect rejection\<close>

text \<open>
  Claim C3: with \<^verbatim>\<open>OnRedirect == 1\<close>, when the error of the first dispatch carries
  the marker \<^verbatim>\<open>redirect cancelled\<close>, the job's modification time is the time read
  from the clock minus ten minutes, its error is that error, and there is no
  second dispatch; when the first error starts the fallback and the error of the
  retry carries the marker, the same holds with the error of the retry, and
  there is no third dispatch. The time is the instant \<^verbatim>\<open>time.Now\<close> returns; how
  far an observer's clock is from it is outside the model.
\<close>

theorem C3_redirect_rejected:
  assumes "prepare env f = Inr (f1, r, c)"
      and "OnRedirect f = 1"
      and "Do env (length (calls w)) c r = (resp, Some err)"
  shows "(Contains (Error err) MsgNoRedirects \<longrightarrow>
            Mod (fst (Fetch env w f)) = Add (Now env) (- 10 * Minute) \<and>
            Err (fst (Fetch env w f)) = Some err \<and>
            calls (snd (Fetch env w f)) = calls w @ [r]) \<and>
         (\<not> Contains (Error err) MsgNoRedirects \<and> httpsCause err \<and>
          Scheme (ReqURL r) = ''https'' \<and> Method r = ''GET'' \<and>
          Do env (Suc (length (calls w))) c (toHttp r) = (resp2, Some err2) \<and>
          Contains (Error err2) MsgNoRedirects \<longrightarrow>
            Mod (fst (Fetch env w f)) = Add (Now env) (- 10 * Minute) \<and>
            Err (fst (Fetch env w f)) = Some err2 \<and>
            calls (snd (Fetch env w f)) = calls w @ [r, toHttp r])"
proof (rule conjI)
  note F = Fetch_Inr[OF assms(1), of w]
  from prepare_Inr[OF assms(1)] assms(2) have on: "OnRedirect f1 = 1" by (simp add: frame_def)
  show "Contains (Error err) MsgNoRedirects \<longrightarrow>
            Mod (fst (Fetch env w f)) = Add (Now env) (- 10 * Minute) \<and>
            Err (fst (Fetch env w f)) = Some err \<and>
            calls (snd (Fetch env w f)) = calls w @ [r]"
  proof
    assume "Contains (Error err) MsgNoRedirects"
    with on have "redirectCancelled f1 err" by (simp add: redirectCancelled_def)
    from roundTrip_redirect[OF assms(3) this]
    show "Mod (fst (Fetch env w f)) = Add (Now env) (- 10 * Minute) \<and>
            Err (fst (Fetch env w f)) = Some err \<and>
            calls (snd (Fetch env w f)) = calls w @ [r]"
      using F by simp
  qed
  show "\<not> Contains (Error err) MsgNoRedirects \<and> httpsCause err \<and>
          Scheme (ReqURL r) = ''https'' \<and> Method r = ''GET'' \<and>
          Do env (Suc (length (calls w))) c (toHttp r) = (resp2, Some err2) \<and>
          Contains (Error err2) MsgNoRedirects \<longrightarrow>
            Mod (fst (Fetch env w f)) = Add (Now env) (- 10 * Minute) \<and>
            Err (fst (Fetch env w f)) = Some err2 \<and>
            calls (snd (Fetch env w f)) = calls w @ [r, toHttp r]"
  proof
    assume h: "\<not> Contains (Error err) MsgNoRedirects \<and> httpsCause err \<and>
          Scheme (ReqURL r) = ''https'' \<and> Method r = ''GET'' \<and>
          Do env (Suc (length (calls w))) c (toHttp r) = (resp2, Some err2) \<and>
          Contains (Error err2) MsgNoRedirects"
    from h have n1: "\<not> redirectCancelled f1 err" by (simp add: redirectCancelled_def)
    from h on have r2: "redirectCancelled f1 err2" by (simp add: redirectCancelled_def)
    from h have hc: "httpsCause err" and sc: "Scheme (ReqURL r) = ''https''"
      and me: "Method r = ''GET''"
      and d2: "Do env (Suc (length (calls w))) c (toHttp r) = (resp2, Some err2)"
      by simp_all
    from roundTrip_fallback_redirect[OF assms(3) n1 hc sc me d2 r2]
    show "Mod (fst (Fetch env w f)) = Add (Now env) (- 10 * Minute) \<and>
            Err (fst (Fetch env w f)) = Some err2 \<and>
            calls (snd (Fetch env w f)) = calls w @ [r, toHttp r]"
      using F by auto
  qed
qed

text \<open>
  C3 at two inputs: the first dispatch rejected as a redirect; the first dispatch
  failing on the certificate and the retry rejected as a redirect.
\<close>

theorem C3_redirect_rejected_witness:
  "Mod (fst (Fetch (exEnv False [(None, Some redirectError)]) emptyWorld
               (exJob\<lparr>OnRedirect := 1\<rparr>))) = 63900000000 * 1000000000 - 600 * 1000000000 \<and>
   Err (fst (Fetch (exEnv False [(None, Some redirectError)]) emptyWorld
               (exJob\<lparr>OnRedirect := 1\<rparr>))) = Some redirectError \<and>
   calls (snd (Fetch (exEnv False [(None, Some redirectError)]) emptyWorld
               (exJob\<lparr>OnRedirect := 1\<rparr>))) = [exRequest ''GET''] \<and>
   Mod (fst (Fetch (exEnv False [(None, Some tlsError), (None, Some redirectError)]) emptyWorld
               (exJob\<lparr>OnRedirect := 1\<rparr>))) = 63900000000 * 1000000000 - 600 * 1000000000 \<and>
   Err (fst (Fetch (exEnv False [(None, Some tlsError), (None, Some redirectError)]) emptyWorld
               (exJob\<lparr>OnRedirect := 1\<rparr>))) = Some redirectError \<and>
   calls (snd (Fetch (exEnv False [(None, Some tlsError), (None, Some redirectError)]) emptyWorld
               (exJob\<lparr>OnRedirect := 1\<rparr>))) = [exRequest ''GET'', toHttp (exRequest ''GET'')]"
proof -
  let ?A = "exEnv False [(None, Some redirectError)]"
  let ?B = "exEnv False [(None, Some tlsError), (None, Some redirectError)]"
  let ?J = "exJob\<lparr>OnRedirect := 1\<rparr>"
  obtain f1 c where p: "prepare ?A ?J = Inr (f1, exRequest ''GET'', c)"
    by (simp add: model_defs ex_defs)
  obtain g1 d where q: "prepare ?B ?J = Inr (g1, exRequest ''GET'', d)"
    by (simp add: model_defs ex_defs)
  have o: "OnRedirect ?J = 1" by (simp add: ex_defs)
  have d1: "Do ?A (length (calls emptyWorld)) c (exRequest ''GET'') = (None, Some redirectError)"
    by (simp add: ex_defs)
  have d2: "Do ?B (length (calls emptyWorld)) d (exRequest ''GET'') = (None, Some tlsError)"
    by (simp add: ex_defs)
  have d3: "Do ?B (Suc (length (calls emptyWorld))) d (toHttp (exRequest ''GET'')) =
              (None, Some redirectError)"
    by (simp add: ex_defs)
  have c1: "Contains (Error redirectError) MsgNoRedirects"
    by (simp add: MsgNoRedirects_def ex_defs)
  have c2: "\<not> Contains (Error tlsError) MsgNoRedirects"
    by (simp add: MsgNoRedirects_def ex_defs)
  have h: "httpsCause tlsError" by (simp add: httpsCause_def ex_defs)
  have s: "Scheme (ReqURL (exRequest ''GET'')) = ''https''" by (simp add: ex_defs)
  have m: "Method (exRequest ''GET'') = ''GET''" by (simp add: ex_defs)
  have n: "Add (Now ?A) (- 10 * Minute) = 63900000000 * 1000000000 - 600 * 1000000000"
    "Add (Now ?B) (- 10 * Minute) = 63900000000 * 1000000000 - 600 * 1000000000"
    by (simp_all add: Add_def Minute_def ex_defs)
  from C3_redirect_rejected[OF p o d1, of None redirectError] c1
  have A: "Mod (fst (Fetch ?A emptyWorld ?J)) = Add (Now ?A) (- 10 * Minute) \<and>
           Err (fst (Fetch ?A emptyWorld ?J)) = Some redirectError \<and>
           calls (snd (Fetch ?A emptyWorld ?J)) = calls emptyWorld @ [exRequest ''GET'']"
    by blast
  from C3_redirect_rejected[OF q o d2, of None redirectError] c2 h s m d3 c1
  have B: "Mod (fst (Fetch ?B emptyWorld ?J)) = Add (Now ?B) (- 10 * Minute) \<and>
           Err (fst (Fetch ?B emptyWorld ?J)) = Some redirectError \<and>
           calls (snd (Fetch ?B emptyWorld ?J)) =
             calls emptyWorld @ [exRequest ''GET'', toHttp (exRequest ''GET'')]"
    by blast
  from A B show ?thesis unfolding n calls_emptyWorld by simp
qed

section \<open>C4: the error after a failed fallback\<close>

text \<open>
  Claim C4: when the retry over http fails too and its error does not carry the
  marker \<^verbatim>\<open>redirect cancelled\<close>, the job stores the error of the first dispatch;
  when the error of the retry carries the marker and \<^verbatim>\<open>OnRedirect == 1\<close>, the job
  stores the error of the retry, and its modification time is the clock's time
  minus ten minutes.
\<close>

theorem C4_fallback_error:
  assumes "prepare env f = Inr (f1, r, c)"
      and "Do env (length (calls w)) c r = (resp, Some err)"
      and "\<not> redirectCancelled f err"
      and "httpsCause err"
      and "Scheme (ReqURL r) = ''https''"
      and "Method r = ''GET''"
      and "Do env (Suc (length (calls w))) c (toHttp r) = (resp2, Some err2)"
  shows "(\<not> Contains (Error err2) MsgNoRedirects \<longrightarrow> Err (fst (Fetch env w f)) = Some err) \<and>
         (Contains (Error err2) MsgNoRedirects \<and> OnRedirect f = 1 \<longrightarrow>
            Err (fst (Fetch env w f)) = Some err2 \<and>
            Mod (fst (Fetch env w f)) = Add (Now env) (- 10 * Minute))"
proof (rule conjI)
  note F = Fetch_Inr[OF assms(1), of w]
  from prepare_Inr[OF assms(1)] have fr: "frame f f1" by simp
  from assms(3) have n1: "\<not> redirectCancelled f1 err"
    using redirectCancelled_frame[OF fr] by simp
  show "\<not> Contains (Error err2) MsgNoRedirects \<longrightarrow> Err (fst (Fetch env w f)) = Some err"
  proof
    assume "\<not> Contains (Error err2) MsgNoRedirects"
    then have "\<not> redirectCancelled f1 err2" by (simp add: redirectCancelled_def)
    from roundTrip_fallback_failed[OF assms(2) n1 assms(4,5,6,7) this]
    show "Err (fst (Fetch env w f)) = Some err" using F by auto
  qed
  show "Contains (Error err2) MsgNoRedirects \<and> OnRedirect f = 1 \<longrightarrow>
            Err (fst (Fetch env w f)) = Some err2 \<and>
            Mod (fst (Fetch env w f)) = Add (Now env) (- 10 * Minute)"
  proof
    assume "Contains (Error err2) MsgNoRedirects \<and> OnRedirect f = 1"
    with fr have "redirectCancelled f1 err2" by (simp add: redirectCancelled_def frame_def)
    from roundTrip_fallback_redirect[OF assms(2) n1 assms(4,5,6,7) this]
    show "Err (fst (Fetch env w f)) = Some err2 \<and>
            Mod (fst (Fetch env w f)) = Add (Now env) (- 10 * Minute)"
      using F by auto
  qed
qed

text \<open>C4 at two inputs: a retry that is refused, and a retry rejected as a redirect.\<close>

theorem C4_fallback_error_witness:
  "Err (fst (Fetch (exEnv False [(None, Some tlsError), (None, Some refusedError)]) emptyWorld
               (exJob\<lparr>OnRedirect := 1\<rparr>))) = Some tlsError \<and>
   Err (fst (Fetch (exEnv False [(None, Some tlsError), (None, Some redirectError)]) emptyWorld
               (exJob\<lparr>OnRedirect := 1\<rparr>))) = Some redirectError \<and>
   Mod (fst (Fetch (exEnv False [(None, Some tlsError), (None, Some redirectError)]) emptyWorld
               (exJob\<lparr>OnRedirect := 1\<rparr>))) = 63900000000 * 1000000000 - 600 * 1000000000"
proof -
  let ?A = "exEnv False [(None, Some tlsError), (None, Some refusedError)]"
  let ?B = "exEnv False [(None, Some tlsError), (None, Some redirectError)]"
  let ?J = "exJob\<lparr>OnRedirect := 1\<rparr>"
  obtain f1 c where p: "prepare ?A ?J = Inr (f1, exRequest ''GET'', c)"
    by (simp add: model_defs ex_defs)
  obtain g1 d where q: "prepare ?B ?J = Inr (g1, exRequest ''GET'', d)"
    by (simp add: model_defs ex_defs)
  have o: "OnRedirect ?J = 1" by (simp add: ex_defs)
  have a1: "Do ?A (length (calls emptyWorld)) c (exRequest ''GET'') = (None, Some tlsError)"
    by (simp add: ex_defs)
  have a2: "Do ?A (Suc (length (calls emptyWorld))) c (toHttp (exRequest ''GET'')) =
              (None, Some refusedError)"
    by (simp add: ex_defs)
  have b1: "Do ?B (length (calls emptyWorld)) d (exRequest ''GET'') = (None, Some tlsError)"
    by (simp add: ex_defs)
  have b2: "Do ?B (Suc (length (calls emptyWorld))) d (toHttp (exRequest ''GET'')) =
              (None, Some redirectError)"
    by (simp add: ex_defs)
  have n: "\<not> redirectCancelled ?J tlsError"
    by (simp add: redirectCancelled_def MsgNoRedirects_def ex_defs)
  have h: "httpsCause tlsError" by (simp add: httpsCause_def ex_defs)
  have s: "Scheme (ReqURL (exRequest ''GET'')) = ''https''" by (simp add: ex_defs)
  have m: "Method (exRequest ''GET'') = ''GET''" by (simp add: ex_defs)
  have c1: "\<not> Contains (Error refusedError) MsgNoRedirects"
    by (simp add: MsgNoRedirects_def ex_defs)
  have c2: "Contains (Error redirectError) MsgNoRedirects"
    by (simp add: MsgNoRedirects_def ex_defs)
  have t: "Add (Now ?B) (- 10 * Minute) = 63900000000 * 1000000000 - 600 * 1000000000"
    by (simp add: Add_def Minute_def ex_defs)
  from C4_fallback_error[OF p a1 n h s m a2] c1
  have A: "Err (fst (Fetch ?A emptyWorld ?J)) = Some tlsError" by blast
  from C4_fallback_error[OF q b1 n h s m b2] c2 o
  have B: "Err (fst (Fetch ?B emptyWorld ?J)) = Some redirectError \<and>
           Mod (fst (Fetch ?B emptyWorld ?J)) = Add (Now ?B) (- 10 * Minute)" by blast
  from A B show ?thesis unfolding t by simp
qed

section \<open>C5: error or outcome\<close>

text \<open>
  Claim C5, as stated: after \<^verbatim>\<open>Fetch\<close> the job has either its error set or its
  status code and body set, never both. Line 260 assigns the status code before
  the body is read, and line 262 assigns the bytes read together with the error
  of the read: when reading the body fails, a job that started with status 0 and
  no bytes returns with the error, the status code 200 of the response and the
  bytes read before the failure.
\<close>

theorem C5_counterexample:
  "Status exJob = 0 \<and> bts exJob = [] \<and>
   Err (fst (Fetch (exEnv False [(Some brokenResponse, None)]) emptyWorld exJob)) =
     Some eofError \<and>
   Status (fst (Fetch (exEnv False [(Some brokenResponse, None)]) emptyWorld exJob)) = 200 \<and>
   bts (fst (Fetch (exEnv False [(Some brokenResponse, None)]) emptyWorld exJob)) = [104]"
  by (simp add: model_defs ex_defs)

text \<open>
  Claim C5, amended: after \<^verbatim>\<open>Fetch\<close>, a job without error has the status code of a
  response that a dispatch returned without error and all bytes of its body, read
  without error; a job with an error has the status code and bytes it had before
  the call, unless the error is that of reading the body of such a response, in
  which case it has the status code of the response and the bytes read until
  the failure.
\<close>

theorem C5_error_or_outcome:
  "(Err (fst (Fetch env w f)) = None \<longrightarrow>
      (\<exists>n c r rsp b. Do env n c r = (Some rsp, None) \<and> Body rsp = Some b \<and> read_err b = None \<and>
         Status (fst (Fetch env w f)) = StatusCode rsp \<and> bts (fst (Fetch env w f)) = data b)) \<and>
   (Err (fst (Fetch env w f)) \<noteq> None \<longrightarrow>
      (Status (fst (Fetch env w f)) = Status f \<and> bts (fst (Fetch env w f)) = bts f) \<or>
      (\<exists>n c r rsp b. Do env n c r = (Some rsp, None) \<and> Body rsp = Some b \<and>
         read_err b = Err (fst (Fetch env w f)) \<and>
         Status (fst (Fetch env w f)) = StatusCode rsp \<and> bts (fst (Fetch env w f)) = data b))"
proof (cases "prepare env f")
  case (Inl g)
  from prepare_Inl[OF Inl] have "Err g \<noteq> None" "Status g = Status f" "bts g = bts f"
    by (simp_all add: frame_def)
  moreover from Inl have "Fetch env w f = (g, w)" by (simp add: Fetch_def)
  ultimately show ?thesis by auto
next
  case (Inr x)
  then obtain f1 r c where p: "prepare env f = Inr (f1, r, c)" by (cases x) auto
  note F = Fetch_Inr[OF p, of w]
  from prepare_Inr[OF p] have fr: "Status f1 = Status f" "bts f1 = bts f"
    by (simp_all add: frame_def)
  show ?thesis
  proof (cases "roundTrip env w f1 r c")
    case (Inl res)
    then obtain g w' where rt: "roundTrip env w f1 r c = Inl (g, w')" by (cases res) auto
    from roundTrip_Inl[OF rt] fr F rt show ?thesis by auto
  next
    case (Inr y)
    then obtain f2 w2 resp where rt: "roundTrip env w f1 r c = Inr (f2, w2, resp)"
      by (cases y) auto
    from roundTrip_Inr[OF rt] fr obtain n r' where
      st: "Status f2 = Status f" "bts f2 = bts f" and d: "Do env n c r' = (resp, None)"
      by auto
    from F rt have FF: "Fetch env w f = finish env w2 f2 resp" by simp
    show ?thesis
    proof (cases "resp = None \<or> (\<exists>rsp. resp = Some rsp \<and> Body rsp = None)")
      case True
      from finish_nil[OF True] FF st show ?thesis by auto
    next
      case False
      then obtain rsp b where rb: "resp = Some rsp" "Body rsp = Some b" by auto
      show ?thesis
      proof (cases "read_err b")
        case None
        from finish_read_ok[OF rb(2) None] FF rb(1)
        have "Err (fst (Fetch env w f)) = None" "Status (fst (Fetch env w f)) = StatusCode rsp"
          "bts (fst (Fetch env w f)) = data b" by simp_all
        with d rb None show ?thesis by blast
      next
        case (Some e)
        from finish_read_failed[OF rb(2) Some] FF rb(1)
        have "Err (fst (Fetch env w f)) = Some e" "Status (fst (Fetch env w f)) = StatusCode rsp"
          "bts (fst (Fetch env w f)) = data b" by simp_all
        with d rb Some show ?thesis by force
      qed
    qed
  qed
qed

text \<open>C5 at two inputs: a response read to its end, and a refused connection.\<close>

theorem C5_error_or_outcome_witness:
  "Err (fst (Fetch (exEnv False [(Some (exResponse noHeader), None)]) emptyWorld exJob)) = None \<and>
   (\<exists>n c r rsp b.
      Do (exEnv False [(Some (exResponse noHeader), None)]) n c r = (Some rsp, None) \<and>
      Body rsp = Some b \<and> read_err b = None \<and>
      Status (fst (Fetch (exEnv False [(Some (exResponse noHeader), None)]) emptyWorld exJob)) =
        StatusCode rsp \<and>
      bts (fst (Fetch (exEnv False [(Some (exResponse noHeader), None)]) emptyWorld exJob)) =
        data b) \<and>
   Err (fst (Fetch (exEnv False [(None, Some refusedError)]) emptyWorld exJob)) \<noteq> None \<and>
   Status (fst (Fetch (exEnv False [(None, Some refusedError)]) emptyWorld exJob)) = Status exJob \<and>
   bts (fst (Fetch (exEnv False [(None, Some refusedError)]) emptyWorld exJob)) = bts exJob"
proof -
  let ?A = "exEnv False [(Some (exResponse noHeader), None)]"
  let ?B = "exEnv False [(None, Some refusedError)]"
  have a: "Err (fst (Fetch ?A emptyWorld exJob)) = None"
    by (simp add: model_defs ex_defs)
  have b: "Err (fst (Fetch ?B emptyWorld exJob)) \<noteq> None"
    by (simp add: model_defs ex_defs)
  have nb: "\<not> (\<exists>n c r rsp b. Do ?B n c r = (Some rsp, None) \<and> Body rsp = Some b \<and>
         read_err b = Err (fst (Fetch ?B emptyWorld exJob)) \<and>
         Status (fst (Fetch ?B emptyWorld exJob)) = StatusCode rsp \<and>
         bts (fst (Fetch ?B emptyWorld exJob)) = data b)"
    by (simp add: ex_defs)
  from C5_error_or_outcome[of ?A emptyWorld exJob] a
  have A: "\<exists>n c r rsp b. Do ?A n c r = (Some rsp, None) \<and> Body rsp = Some b \<and>
      read_err b = None \<and> Status (fst (Fetch ?A emptyWorld exJob)) = StatusCode rsp \<and>
      bts (fst (Fetch ?A emptyWorld exJob)) = data b"
    by blast
  from C5_error_or_outcome[of ?B emptyWorld exJob] b nb
  have B: "Status (fst (Fetch ?B emptyWorld exJob)) = Status exJob \<and>
           bts (fst (Fetch ?B emptyWorld exJob)) = bts exJob"
    by blast
  from a A b B show ?thesis by blast
qed

section \<open>C6: a URL that does not parse\<close>

text \<open>
  Claim C6: for a job without a prebuilt request, when the normalizer rejects the
  URL string, or \<^verbatim>\<open>http.NewRequest\<close> rejects the normalized one, the job's error is
  the error returned there and the world is as before the call: no request was
  dispatched and no body read.
\<close>

theorem C6_parse_failure:
  assumes "Req f = None"
  shows "(UrlParseImproved env (URL f) = Inl e \<longrightarrow>
            Err (fst (Fetch env w f)) = Some e \<and> snd (Fetch env w f) = w) \<and>
         (UrlParseImproved env (URL f) = Inr u \<and>
          NewRequest env ''GET'' (URL_String env u) = Inl e \<longrightarrow>
            Err (fst (Fetch env w f)) = Some e \<and> snd (Fetch env w f) = w)"
  using assms
  by (simp add: Fetch_def prepare_def buildRequest_def Req_defaults URL_defaults)

text \<open>C6 at two inputs, one rejected by the normalizer, one by \<^verbatim>\<open>http.NewRequest\<close>.\<close>

theorem C6_parse_failure_witness:
  "Err (fst (Fetch (exEnv False []) emptyWorld (exJob\<lparr>URL := ''%''\<rparr>))) = Some parseError \<and>
   snd (Fetch (exEnv False []) emptyWorld (exJob\<lparr>URL := ''%''\<rparr>)) = emptyWorld \<and>
   Err (fst (Fetch (exEnv False []) emptyWorld (exJob\<lparr>URL := ''example.com/%zz''\<rparr>))) =
     Some requestError \<and>
   snd (Fetch (exEnv False []) emptyWorld (exJob\<lparr>URL := ''example.com/%zz''\<rparr>)) = emptyWorld"
proof -
  let ?E = "exEnv False []"
  let ?J = "exJob\<lparr>URL := ''%''\<rparr>" and ?K = "exJob\<lparr>URL := ''example.com/%zz''\<rparr>"
  have r: "Req ?J = None" "Req ?K = None" by (simp_all add: ex_defs)
  have a: "UrlParseImproved ?E (URL ?J) = Inl parseError" by (simp add: ex_defs)
  have b: "UrlParseImproved ?E (URL ?K) = Inr (exURL\<lparr>Path := ''/%zz''\<rparr>) \<and>
           NewRequest ?E ''GET'' (URL_String ?E (exURL\<lparr>Path := ''/%zz''\<rparr>)) = Inl requestError"
    by (simp add: ex_defs)
  from C6_parse_failure[OF r(1), of ?E parseError emptyWorld] a
  have A: "Err (fst (Fetch ?E emptyWorld ?J)) = Some parseError \<and>
           snd (Fetch ?E emptyWorld ?J) = emptyWorld" by blast
  from C6_parse_failure[OF r(2), of ?E requestError emptyWorld "exURL\<lparr>Path := ''/%zz''\<rparr>"] b
  have B: "Err (fst (Fetch ?E emptyWorld ?K)) = Some requestError \<and>
           snd (Fetch ?E emptyWorld ?K) = emptyWorld" by blast
  from A B show ?thesis by simp
qed

section \<open>C7: the Last-Modified header\<close>

text \<open>
  Claim C7: when a dispatch hands over a response whose body is read without
  error, the job's modification time is what \<^verbatim>\<open>time.Parse\<close> returns for the
  Last-Modified header under the layout RFC1123, for the value
  \<^verbatim>\<open>Sat, 29 Aug 2015 21:15:39 GMT\<close> as for any other; if that fails, what it
  returns under RFC1123Z; and the zero time if both fail or the header is absent
  or empty. \<^verbatim>\<open>time.Parse\<close> is Go's library and a parameter here.
\<close>

theorem C7_last_modified:
  assumes "prepare env f = Inr (f1, r, c)"
      and "roundTrip env w f1 r c = Inr (f2, w2, Some rsp)"
      and "Body rsp = Some b"
      and "read_err b = None"
      and "lm = Header_Get (Header rsp) ''Last-Modified''"
  shows "(lm = ''Sat, 29 Aug 2015 21:15:39 GMT'' \<and> time_Parse env RFC1123 lm = Inr t \<longrightarrow>
            Mod (fst (Fetch env w f)) = t) \<and>
         (lm \<noteq> [] \<and> time_Parse env RFC1123 lm = Inr t \<longrightarrow> Mod (fst (Fetch env w f)) = t) \<and>
         (lm \<noteq> [] \<and> time_Parse env RFC1123 lm = Inl e1 \<and> time_Parse env RFC1123Z lm = Inr t \<longrightarrow>
            Mod (fst (Fetch env w f)) = t) \<and>
         (time_Parse env RFC1123 lm = Inl e1 \<and> time_Parse env RFC1123Z lm = Inl e2 \<longrightarrow>
            Mod (fst (Fetch env w f)) = zeroTime) \<and>
         (Header rsp ''Last-Modified'' = None \<longrightarrow>
            Mod (fst (Fetch env w f)) = zeroTime \<and> lm = []) \<and>
         (lm = [] \<longrightarrow> Mod (fst (Fetch env w f)) = zeroTime)"
proof -
  from Fetch_Inr[OF assms(1), of w] assms(2) finish_read_ok[OF assms(3,4)] assms(5)
  have m: "Mod (fst (Fetch env w f)) = lastModified env lm" by simp
  have a: "Header rsp ''Last-Modified'' = None \<longrightarrow> lm = []"
    using assms(5) by (simp add: Header_Get_def)
  show ?thesis unfolding m using a by (auto simp: lastModified_def)
qed

text \<open>
  C7 at four responses: the header of the claim, the same instant with a numeric
  zone, a header no layout parses, and no header; the job starts with a
  modification time that is not the zero time.
\<close>

theorem C7_last_modified_witness:
  "Mod (fst (Fetch
     (exEnv False [(Some (exResponse (lmHeader ''Sat, 29 Aug 2015 21:15:39 GMT'')), None)])
     emptyWorld exJob)) = exInstant \<and>
   Mod (fst (Fetch
     (exEnv False [(Some (exResponse (lmHeader ''Sat, 29 Aug 2015 21:15:39 +0000'')), None)])
     emptyWorld exJob)) = exInstant \<and>
   Mod (fst (Fetch (exEnv False [(Some (exResponse (lmHeader ''yesterday'')), None)])
     emptyWorld exJob)) = zeroTime \<and>
   Mod (fst (Fetch (exEnv False [(Some (exResponse noHeader), None)]) emptyWorld exJob)) =
     zeroTime \<and>
   Mod exJob \<noteq> zeroTime \<and> exInstant \<noteq> zeroTime"
proof -
  let ?h1 = "lmHeader ''Sat, 29 Aug 2015 21:15:39 GMT''"
  let ?h2 = "lmHeader ''yesterday''"
  let ?h4 = "lmHeader ''Sat, 29 Aug 2015 21:15:39 +0000''"
  let ?A = "exEnv False [(Some (exResponse ?h1), None)]"
  let ?B = "exEnv False [(Some (exResponse ?h2), None)]"
  let ?C = "exEnv False [(Some (exResponse noHeader), None)]"
  let ?D = "exEnv False [(Some (exResponse ?h4), None)]"
  obtain f1 r c f2 w2 where pa: "prepare ?A exJob = Inr (f1, r, c)"
    and ra: "roundTrip ?A emptyWorld f1 r c = Inr (f2, w2, Some (exResponse ?h1))"
    by (simp add: model_defs ex_defs)
  obtain g1 s d g2 v2 where pb: "prepare ?B exJob = Inr (g1, s, d)"
    and rb: "roundTrip ?B emptyWorld g1 s d = Inr (g2, v2, Some (exResponse ?h2))"
    by (simp add: model_defs ex_defs)
  obtain k1 t e k2 u2 where pc: "prepare ?C exJob = Inr (k1, t, e)"
    and rc: "roundTrip ?C emptyWorld k1 t e = Inr (k2, u2, Some (exResponse noHeader))"
    by (simp add: model_defs ex_defs)
  obtain m1 q a m2 x2 where pd: "prepare ?D exJob = Inr (m1, q, a)"
    and rd: "roundTrip ?D emptyWorld m1 q a = Inr (m2, x2, Some (exResponse ?h4))"
    by (simp add: model_defs ex_defs)
  have bd: "Body (exResponse ?h1) = Some exBody" "Body (exResponse ?h2) = Some exBody"
    "Body (exResponse noHeader) = Some exBody" "Body (exResponse ?h4) = Some exBody"
    by (simp_all add: exResponse_def)
  have re: "read_err exBody = None" by (simp add: exBody_def)
  have l1: "''Sat, 29 Aug 2015 21:15:39 GMT'' =
              Header_Get (Header (exResponse ?h1)) ''Last-Modified''"
    by (simp add: Header_Get_def ex_defs)
  have l2: "''yesterday'' = Header_Get (Header (exResponse ?h2)) ''Last-Modified''"
    by (simp add: Header_Get_def ex_defs)
  have l3: "[] = Header_Get (Header (exResponse noHeader)) ''Last-Modified''"
    by (simp add: Header_Get_def ex_defs)
  have l4: "''Sat, 29 Aug 2015 21:15:39 +0000'' =
              Header_Get (Header (exResponse ?h4)) ''Last-Modified''"
    by (simp add: Header_Get_def ex_defs)
  have t1: "time_Parse ?A RFC1123 ''Sat, 29 Aug 2015 21:15:39 GMT'' = Inr exInstant"
    by (simp add: ex_defs)
  have t2: "time_Parse ?B RFC1123 ''yesterday'' = Inl timeError \<and>
            time_Parse ?B RFC1123Z ''yesterday'' = Inl timeError"
    by (simp add: ex_defs)
  have t4: "''Sat, 29 Aug 2015 21:15:39 +0000'' \<noteq> [] \<and>
            time_Parse ?D RFC1123 ''Sat, 29 Aug 2015 21:15:39 +0000'' = Inl timeError \<and>
            time_Parse ?D RFC1123Z ''Sat, 29 Aug 2015 21:15:39 +0000'' = Inr exInstant"
    by (simp add: ex_defs)
  have h3: "Header (exResponse noHeader) ''Last-Modified'' = None" by (simp add: ex_defs)
  from C7_last_modified[OF pa ra bd(1) re l1, of exInstant] t1
  have A: "Mod (fst (Fetch ?A emptyWorld exJob)) = exInstant" by blast
  from C7_last_modified[OF pb rb bd(2) re l2, of _ timeError timeError] t2
  have B: "Mod (fst (Fetch ?B emptyWorld exJob)) = zeroTime" by blast
  from C7_last_modified[OF pc rc bd(3) re l3] h3
  have C: "Mod (fst (Fetch ?C emptyWorld exJob)) = zeroTime" by blast
  from C7_last_modified[OF pd rd bd(4) re l4, of exInstant timeError] t4
  have D: "Mod (fst (Fetch ?D emptyWorld exJob)) = exInstant" by blast
  have E: "Mod exJob \<noteq> zeroTime \<and> exInstant \<noteq> zeroTime"
    by (simp add: zeroTime_def ex_defs)
  from A B C D E show ?thesis by simp
qed

section \<open>C8: the forced protocol\<close>

text \<open>
  Claim C8, as stated: a forced protocol \<^verbatim>\<open>https:\<close> is trimmed to \<^verbatim>\<open>https\<close> and,
  once applied, overrides every other decision about the scheme. Lines 163 to 166
  come after the override of line 127: with the appengine client, on the dev
  server and without \<^verbatim>\<open>ForceHttps\<close>, the request is dispatched with the scheme
  http although \<^verbatim>\<open>https:\<close> was forced.
\<close>

theorem C8_counterexample:
  "ForceProtocol (fst (Fetch (exEnv True [(Some (exResponse noHeader), None)]) emptyWorld
       (exJob\<lparr>ForceProtocol := ''https:'', AeReq := Some (exRequest ''GET'')\<rparr>))) = ''https'' \<and>
   calls (snd (Fetch (exEnv True [(Some (exResponse noHeader), None)]) emptyWorld
       (exJob\<lparr>ForceProtocol := ''https:'', AeReq := Some (exRequest ''GET'')\<rparr>))) =
     [toHttp (exRequest ''GET'')] \<and>
   Scheme (ReqURL (toHttp (exRequest ''GET''))) = ''http''"
  by (simp add: model_defs ex_defs)

text \<open>
  Claim C8, amended: in every \<^verbatim>\<open>Fetch\<close> that builds its request, a forced protocol
  \<^verbatim>\<open>https:\<close> (or \<^verbatim>\<open>http:\<close>) is trimmed to \<^verbatim>\<open>https\<close> (or \<^verbatim>\<open>http\<close>) and replaces the
  scheme the request had; the request is first dispatched with the forced scheme,
  except that with the appengine client, on the dev server and without
  \<^verbatim>\<open>ForceHttps\<close>, it is dispatched with the scheme http.
\<close>

theorem C8_forced_protocol:
  assumes "ForceProtocol f = fp @ '':''"
      and "fp = ''https'' \<or> fp = ''http''"
      and "prepare env f = Inr (f1, r, c)"
  shows "ForceProtocol f1 = fp \<and>
         Scheme (ReqURL r) =
           (if deriveContext env f \<noteq> None \<and> IsDevAppServer env \<and> \<not> ForceHttps f
            then ''http'' else fp)"
proof -
  from assms(3) obtain p where b: "buildRequest env (defaults env f) = Inr p"
    and i: "installRedirect env (selectClient env (forceProtocol (defaultPath p))) = (f1, r, c)"
    by (auto simp: prepare_def split: sum.splits)
  let ?p1 = "defaultPath p" and ?p2 = "forceProtocol (defaultPath p)"
  let ?p3 = "fst (selectClient env (forceProtocol (defaultPath p)))"
  from buildRequest_Inr[OF b]
  have 1: "frame (defaults env f) (fst p)" "Req (fst p) = Some (snd p)"
    "ForceProtocol (fst p) = ForceProtocol f"
    by (simp_all add: ForceProtocol_defaults)
  from defaultPath_props[OF 1(2)]
  have 2: "frame (fst p) (fst ?p1)" "Req (fst ?p1) = Some (snd ?p1)"
    "ForceProtocol (fst ?p1) = ForceProtocol (fst p)"
    by simp_all
  from forceProtocol_props[OF 2(2)]
  have 3: "frame (fst ?p1) (fst ?p2)" "Req (fst ?p2) = Some (snd ?p2)"
    by simp_all
  have fp: "ForceProtocol (fst ?p2) = fp" "Scheme (ReqURL (snd ?p2)) = fp"
    using forceProtocol_forced[of ?p1 fp] 2(3) 1(3) assms(1,2) by simp_all
  from selectClient_props[OF 3(2), of env]
  have 4: "frame (fst ?p2) (fst ?p3)" "Req (fst ?p3) = Some (snd ?p3)"
    "ForceProtocol (fst ?p3) = ForceProtocol (fst ?p2)"
    by simp_all
  from installRedirect_props[OF 4(2) i]
  have 5: "r = snd ?p3" "ForceProtocol f1 = ForceProtocol (fst ?p3)"
    by simp_all
  have fr: "frame f (fst ?p2)"
    using frame_defaults[of f env] 1(1) 2(1) 3(1) by (blast intro: frame_trans)
  have "Scheme (ReqURL r) =
     (if deriveContext env (fst ?p2) \<noteq> None \<and> IsDevAppServer env \<and> \<not> ForceHttps (fst ?p2)
      then ''http'' else fp)"
    using selectClient_scheme[of env ?p2] 5(1) fp(2) by auto
  moreover have "deriveContext env (fst ?p2) = deriveContext env f"
    using deriveContext_frame[OF fr] .
  moreover have "ForceHttps (fst ?p2) = ForceHttps f" using fr by (simp add: frame_def)
  ultimately show ?thesis using 5(2) 4(3) fp(1) by simp
qed

text \<open>
  C8 at three inputs: \<^verbatim>\<open>http:\<close> forced on an https request; \<^verbatim>\<open>https:\<close> forced on
  the dev server, without and with \<^verbatim>\<open>ForceHttps\<close>.
\<close>

theorem C8_forced_protocol_witness:
  "(case prepare (exEnv False [])
           (exJob\<lparr>ForceProtocol := ''http:'', AeReq := Some (exRequest ''GET'')\<rparr>) of
      Inl g \<Rightarrow> False
    | Inr (f1, r, c) \<Rightarrow> ForceProtocol f1 = ''http'' \<and> Scheme (ReqURL r) = ''http'') \<and>
   (case prepare (exEnv True [])
           (exJob\<lparr>ForceProtocol := ''https:'', AeReq := Some (exRequest ''GET'')\<rparr>) of
      Inl g \<Rightarrow> False
    | Inr (f1, r, c) \<Rightarrow> ForceProtocol f1 = ''https'' \<and> Scheme (ReqURL r) = ''http'') \<and>
   (case prepare (exEnv True [])
           (exJob\<lparr>ForceProtocol := ''https:'', AeReq := Some (exRequest ''GET''),
                  ForceHttps := True\<rparr>) of
      Inl g \<Rightarrow> False
    | Inr (f1, r, c) \<Rightarrow> ForceProtocol f1 = ''https'' \<and> Scheme (ReqURL r) = ''https'')"
proof -
  let ?A = "exEnv False []" and ?B = "exEnv True []"
  let ?J = "exJob\<lparr>ForceProtocol := ''http:'', AeReq := Some (exRequest ''GET'')\<rparr>"
  let ?K = "exJob\<lparr>ForceProtocol := ''https:'', AeReq := Some (exRequest ''GET'')\<rparr>"
  let ?L = "exJob\<lparr>ForceProtocol := ''https:'', AeReq := Some (exRequest ''GET''),
                  ForceHttps := True\<rparr>"
  obtain f1 r c where p: "prepare ?A ?J = Inr (f1, r, c)" by (simp add: model_defs ex_defs)
  obtain g1 s d where q: "prepare ?B ?K = Inr (g1, s, d)" by (simp add: model_defs ex_defs)
  obtain k1 t e where u: "prepare ?B ?L = Inr (k1, t, e)" by (simp add: model_defs ex_defs)
  have fj: "ForceProtocol ?J = ''http'' @ '':''" "ForceProtocol ?K = ''https'' @ '':''"
    "ForceProtocol ?L = ''https'' @ '':''" by (simp_all add: ex_defs)
  have c1: "\<not> IsDevAppServer ?A" by (simp add: ex_defs)
  have c2: "deriveContext ?B ?K \<noteq> None \<and> IsDevAppServer ?B \<and> \<not> ForceHttps ?K"
    by (simp add: deriveContext_def ex_defs)
  have c3: "ForceHttps ?L" by (simp add: ex_defs)
  from C8_forced_protocol[OF fj(1) _ p] c1
  have A: "ForceProtocol f1 = ''http'' \<and> Scheme (ReqURL r) = ''http''" by simp
  from C8_forced_protocol[OF fj(2) _ q] c2
  have B: "ForceProtocol g1 = ''https'' \<and> Scheme (ReqURL s) = ''http''" by simp
  from C8_forced_protocol[OF fj(3) _ u] c3
  have C: "ForceProtocol k1 = ''https'' \<and> Scheme (ReqURL t) = ''https''" by simp
  from p q u A B C show ?thesis by simp
qed

section \<open>C9: closing the body\<close>

text \<open>
  Claim C9: a body that was read is closed, whether the read succeeded or failed.
  The \<^verbatim>\<open>defer\<close> that closes the body (line 266) stands after the return for a
  failed read (lines 263 to 265): for a response whose body fails while it is
  read, \<^verbatim>\<open>Fetch\<close> returns with the read error, the body read and not closed. After
  a read without error the body is closed (\<open>finish_read_ok\<close>).
\<close>

theorem C9_body_not_closed:
  "Err (fst (Fetch (exEnv False [(Some brokenResponse, None)]) emptyWorld exJob)) =
     Some eofError \<and>
   reads (snd (Fetch (exEnv False [(Some brokenResponse, None)]) emptyWorld exJob)) = [7] \<and>
   closed (snd (Fetch (exEnv False [(Some brokenResponse, None)]) emptyWorld exJob)) = []"
  by (simp add: model_defs ex_defs)

section \<open>C10: the scheme after a failed fallback\<close>

text \<open>
  Claim C10, as stated: when the retry over http fails, the job's request keeps
  the scheme http, and the error on the job is that of the first dispatch. With
  \<^verbatim>\<open>OnRedirect == 1\<close> and a retry rejected as a redirect, the error on the job is
  that of the retry (line 233).
\<close>

theorem C10_counterexample:
  "calls (snd (Fetch (exEnv False [(None, Some tlsError), (None, Some redirectError)]) emptyWorld
                (exJob\<lparr>OnRedirect := 1\<rparr>))) = [exRequest ''GET'', toHttp (exRequest ''GET'')] \<and>
   Err (fst (Fetch (exEnv False [(None, Some tlsError), (None, Some redirectError)]) emptyWorld
                (exJob\<lparr>OnRedirect := 1\<rparr>))) = Some redirectError \<and>
   redirectError \<noteq> tlsError"
  by (simp add: model_defs ex_defs)

text \<open>
  Claim C10, amended: when the retry over http fails, the job's request keeps the
  scheme http after \<^verbatim>\<open>Fetch\<close> returns; the error on the job is that of the first
  dispatch, unless the retry was rejected as a redirect (\<^verbatim>\<open>OnRedirect == 1\<close> and
  the marker in its error), in which case it is the error of the retry.
\<close>

theorem C10_scheme_stays_http:
  assumes "prepare env f = Inr (f1, r, c)"
      and "Do env (length (calls w)) c r = (resp, Some err)"
      and "\<not> redirectCancelled f err"
      and "httpsCause err"
      and "Scheme (ReqURL r) = ''https''"
      and "Method r = ''GET''"
      and "Do env (Suc (length (calls w))) c (toHttp r) = (resp2, Some err2)"
  shows "Req (fst (Fetch env w f)) = Some (toHttp r) \<and>
         Scheme (ReqURL (toHttp r)) = ''http'' \<and>
         (\<not> redirectCancelled f err2 \<longrightarrow> Err (fst (Fetch env w f)) = Some err) \<and>
         (redirectCancelled f err2 \<longrightarrow> Err (fst (Fetch env w f)) = Some err2)"
proof -
  note F = Fetch_Inr[OF assms(1), of w]
  from prepare_Inr[OF assms(1)] have fr: "frame f f1" by simp
  from assms(3) have n1: "\<not> redirectCancelled f1 err"
    using redirectCancelled_frame[OF fr] by simp
  have s: "Scheme (ReqURL (toHttp r)) = ''http''" by (simp add: toHttp_def)
  show ?thesis
  proof (cases "redirectCancelled f err2")
    case True
    then have "redirectCancelled f1 err2" using redirectCancelled_frame[OF fr] by simp
    from roundTrip_fallback_redirect[OF assms(2) n1 assms(4,5,6,7) this]
    show ?thesis using F True s by auto
  next
    case False
    then have "\<not> redirectCancelled f1 err2" using redirectCancelled_frame[OF fr] by simp
    from roundTrip_fallback_failed[OF assms(2) n1 assms(4,5,6,7) this]
    show ?thesis using F False s by auto
  qed
qed

text \<open>C10 at two inputs: a retry that is refused, and a retry rejected as a redirect.\<close>

theorem C10_scheme_stays_http_witness:
  "Req (fst (Fetch (exEnv False [(None, Some tlsError), (None, Some refusedError)]) emptyWorld
               exJob)) = Some (toHttp (exRequest ''GET'')) \<and>
   Scheme (ReqURL (toHttp (exRequest ''GET''))) = ''http'' \<and>
   Err (fst (Fetch (exEnv False [(None, Some tlsError), (None, Some refusedError)]) emptyWorld
               exJob)) = Some tlsError \<and>
   Req (fst (Fetch (exEnv False [(None, Some tlsError), (None, Some redirectError)]) emptyWorld
               (exJob\<lparr>OnRedirect := 1\<rparr>))) = Some (toHttp (exRequest ''GET'')) \<and>
   Err (fst (Fetch (exEnv False [(None, Some tlsError), (None, Some redirectError)]) emptyWorld
               (exJob\<lparr>OnRedirect := 1\<rparr>))) = Some redirectError"
proof -
  let ?A = "exEnv False [(None, Some tlsError), (None, Some refusedError)]"
  let ?B = "exEnv False [(None, Some tlsError), (None, Some redirectError)]"
  let ?J = "exJob\<lparr>OnRedirect := 1\<rparr>"
  obtain f1 c where p: "prepare ?A exJob = Inr (f1, exRequest ''GET'', c)"
    by (simp add: model_defs ex_defs)
  obtain g1 d where q: "prepare ?B ?J = Inr (g1, exRequest ''GET'', d)"
    by (simp add: model_defs ex_defs)
  have a1: "Do ?A (length (calls emptyWorld)) c (exRequest ''GET'') = (None, Some tlsError)"
    by (simp add: ex_defs)
  have a2: "Do ?A (Suc (length (calls emptyWorld))) c (toHttp (exRequest ''GET'')) =
              (None, Some refusedError)"
    by (simp add: ex_defs)
  have b1: "Do ?B (length (calls emptyWorld)) d (exRequest ''GET'') = (None, Some tlsError)"
    by (simp add: ex_defs)
  have b2: "Do ?B (Suc (length (calls emptyWorld))) d (toHttp (exRequest ''GET'')) =
              (None, Some redirectError)"
    by (simp add: ex_defs)
  have n: "\<not> redirectCancelled exJob tlsError" "\<not> redirectCancelled ?J tlsError"
    by (simp_all add: redirectCancelled_def MsgNoRedirects_def ex_defs)
  have h: "httpsCause tlsError" by (simp add: httpsCause_def ex_defs)
  have s: "Scheme (ReqURL (exRequest ''GET'')) = ''https''" by (simp add: ex_defs)
  have m: "Method (exRequest ''GET'') = ''GET''" by (simp add: ex_defs)
  have c1: "\<not> redirectCancelled exJob refusedError"
    by (simp add: redirectCancelled_def ex_defs)
  have c2: "redirectCancelled ?J redirectError"
    by (simp add: redirectCancelled_def MsgNoRedirects_def ex_defs)
  from C10_scheme_stays_http[OF p a1 n(1) h s m a2] c1
  have A: "Req (fst (Fetch ?A emptyWorld exJob)) = Some (toHttp (exRequest ''GET'')) \<and>
           Scheme (ReqURL (toHttp (exRequest ''GET''))) = ''http'' \<and>
           Err (fst (Fetch ?A emptyWorld exJob)) = Some tlsError" by blast
  from C10_scheme_stays_http[OF q b1 n(2) h s m b2] c2
  have B: "Req (fst (Fetch ?B emptyWorld ?J)) = Some (toHttp (exRequest ''GET'')) \<and>
           Err (fst (Fetch ?B emptyWorld ?J)) = Some redirectError" by blast
  from A B show ?thesis by simp
qed

end
